theory Spec2Isabelle
  imports Main "HOL-Library.Word" "HOL-Library.Sublist"
begin

unbundle bit_operations_syntax

section \<open>Constants of the build\<close>

text \<open>
  \<^verbatim>\<open>vfsmirror.c\<close> uses status codes and open flags of \<^verbatim>\<open>sqlite3.h\<close> and the
  buffer size \<^verbatim>\<open>NAME_MAX\<close> of the C library. Neither header is part of the sources, so
  the constants are a parameter of every function below; \<open>sqlite3_std\<close> holds the values
  of the SQLite distribution and the file's own fallback \<^verbatim>\<open>#define NAME_MAX (260)\<close>.
\<close>

record build =
  SQLITE_OK :: int
  SQLITE_NOMEM :: int
  SQLITE_NOTFOUND :: int
  SQLITE_OPEN_MAIN_DB :: int
  SQLITE_OPEN_MAIN_JOURNAL :: int
  NAME_MAX :: nat

definition sqlite3_std :: build where
  "sqlite3_std = \<lparr>SQLITE_OK = 0, SQLITE_NOMEM = 7, SQLITE_NOTFOUND = 12,
     SQLITE_OPEN_MAIN_DB = 0x100, SQLITE_OPEN_MAIN_JOURNAL = 0x800, NAME_MAX = 260\<rparr>"

section \<open>Reconciling two status codes\<close>

text \<open>
  \<^verbatim>\<open>#define RETURN_CODE(RC1, RC2) (RC1 == RC2 ? RC1 : RC1 == SQLITE_OK ? RC2: RC1)\<close>
\<close>

definition RETURN_CODE :: "build \<Rightarrow> int \<Rightarrow> int \<Rightarrow> int" where
  "RETURN_CODE K RC1 RC2 = (if RC1 = RC2 then RC1 else if RC1 = SQLITE_OK K then RC2 else RC1)"

section \<open>C strings and the tail of a path name\<close>

text \<open>
  A \<^verbatim>\<open>const char*\<close> argument is a \<open>string option\<close>: \<open>None\<close> is the null pointer and
  \<open>Some z\<close> holds the characters before the terminating NUL. What C leaves undefined
  is a value of \<open>error\<close>.
\<close>

datatype error = NullPointer | OutOfBounds int | BufferOverflow | FormatDirective

definition NUL :: char where
  "NUL = CHR 0x00"

definition slash :: char where
  "slash = CHR 0x2F"

definition backslash :: char where
  "backslash = CHR 0x5C"

text \<open>\<^verbatim>\<open>z[k]\<close> for a string \<open>z\<close>: index \<open>length z\<close> is the terminator, anything else
  outside \<open>[0, length z]\<close> is not the string's memory.\<close>

definition char_at :: "string \<Rightarrow> int \<Rightarrow> error + char" where
  "char_at z k =
     (if 0 \<le> k \<and> k < int (length z) then Inr (z ! nat k)
      else if k = int (length z) then Inr NUL
      else Inl (OutOfBounds k))"

text \<open>\<^verbatim>\<open>i = strlen(z) - 1\<close>: the subtraction is on \<^verbatim>\<open>size_t\<close> and the result is
  stored in an \<^verbatim>\<open>int\<close>, so it is the length minus one modulo \<open>2^32\<close>, read as signed.\<close>

definition strlen_minus_1 :: "string \<Rightarrow> int" where
  "strlen_minus_1 z = sint (word_of_nat (length z) - 1 :: 32 word)"

text \<open>\<^verbatim>\<open>while (i > 0 && z[i - 1] != '/' && z[i - 1] != '\\') { i--; }\<close>\<close>

function fileTail_loop :: "string \<Rightarrow> int \<Rightarrow> error + int" where
  "fileTail_loop z i =
     (if i > 0 then
        (case char_at z (i - 1) of
           Inl e \<Rightarrow> Inl e
         | Inr c \<Rightarrow> if c \<noteq> slash \<and> c \<noteq> backslash then fileTail_loop z (i - 1) else Inr i)
      else Inr i)"
  by pat_completeness auto
termination
  by (relation "measure (\<lambda>(z, i). nat i)") auto

text \<open>\<^verbatim>\<open>fileTail\<close> returns \<^verbatim>\<open>&z[i]\<close>: \<open>fileTail_index\<close> is that \<open>i\<close>, and \<open>fileTail\<close> the
  string the pointer denotes, when it points into \<open>z\<close>.\<close>

definition fileTail_index :: "string \<Rightarrow> error + int" where
  "fileTail_index z = fileTail_loop z (strlen_minus_1 z)"

definition fileTail :: "string option \<Rightarrow> error + string option" where
  "fileTail zo =
     (case zo of
        None \<Rightarrow> Inr None
      | Some z \<Rightarrow>
          (case fileTail_index z of
             Inl e \<Rightarrow> Inl e
           | Inr i \<Rightarrow> if 0 \<le> i \<and> i \<le> int (length z) then Inr (Some (drop (nat i) z))
                      else Inl (OutOfBounds i)))"

section \<open>The replica path\<close>

text \<open>
  The process-wide variables \<^verbatim>\<open>static char zSlaveDir[NAME_MAX]\<close> and
  \<^verbatim>\<open>static int registered\<close>. \<open>zSlaveDir\<close> is the array itself, byte by byte; \<open>cstr\<close>
  reads the string it holds, up to the first NUL.
\<close>

record globals =
  zSlaveDir :: "char list"
  registered :: int

definition cstr :: "char list \<Rightarrow> error + string" where
  "cstr buf =
     (if NUL \<in> set buf then Inr (takeWhile (\<lambda>c. c \<noteq> NUL) buf)
      else Inl (OutOfBounds (int (length buf))))"

text \<open>
  \<^verbatim>\<open>strncpy(dest, src, n)\<close> and \<^verbatim>\<open>strncat(dest, src, n)\<close> on a destination of \<open>cap\<close>
  bytes, by the string the destination holds. \<^verbatim>\<open>strncpy\<close> leaves no terminator when
  \<open>src\<close> has \<open>n\<close> characters or more, and the \<^verbatim>\<open>strncat\<close> that follows would then run
  past the array. \<^verbatim>\<open>strncat\<close> appends up to \<open>n\<close> characters of \<open>src\<close> and a NUL, however
  full the destination already is.
\<close>

definition strncpy :: "nat \<Rightarrow> string \<Rightarrow> nat \<Rightarrow> error + string" where
  "strncpy cap src n =
     (if cap < n then Inl BufferOverflow
      else if length src < n then Inr src
      else Inl (OutOfBounds (int n)))"

definition strncat :: "nat \<Rightarrow> string \<Rightarrow> string option \<Rightarrow> nat \<Rightarrow> error + string" where
  "strncat cap dest src n =
     (case src of
        None \<Rightarrow> Inl NullPointer
      | Some t \<Rightarrow>
          if length dest + length (take n t) + 1 \<le> cap then Inr (dest @ take n t)
          else Inl BufferOverflow)"

text \<open>
  \<^verbatim>\<open>strncpy(dest, zSlaveDir, size); strncat(dest, "\\", size);
  strncat(dest, fileTail(sourcePath), size); return dest;\<close>
  Both callers pass an array of \<open>sz\<close> bytes as \<open>dest\<close> (\<open>sz\<close> is the source's \<^verbatim>\<open>size\<close>).
\<close>

definition vfsmirrorReplicaPath :: "globals \<Rightarrow> string option \<Rightarrow> nat \<Rightarrow> error + string" where
  "vfsmirrorReplicaPath g sourcePath sz =
     (case cstr (zSlaveDir g) of
        Inl e \<Rightarrow> Inl e
      | Inr dir \<Rightarrow>
          (case strncpy sz dir sz of
             Inl e \<Rightarrow> Inl e
           | Inr d1 \<Rightarrow>
               (case strncat sz d1 (Some [backslash]) sz of
                  Inl e \<Rightarrow> Inl e
                | Inr d2 \<Rightarrow>
                    (case fileTail sourcePath of
                       Inl e \<Rightarrow> Inl e
                     | Inr t \<Rightarrow> strncat sz d2 t sz))))"

section \<open>The underlying VFS and the engine's services\<close>

text \<open>
  The real VFS \<^verbatim>\<open>pRoot\<close>, the files it opens and the engine's allocator and sleep are
  not this file's code: they are functions of an environment \<open>E\<close> over a state \<open>'w\<close> of
  the outside world. \<open>'h\<close> names an open file of the real VFS. A file object whose
  \<^verbatim>\<open>pMethods\<close> is null is \<open>None\<close>. Buffers and out-parameters are addresses (\<open>nat\<close>)
  that the shim only passes on. Every call the shim makes is appended to \<open>trace\<close>.
\<close>

datatype slot = Primary | Replica

datatype io_req =
    XClose
  | XRead nat int int
  | XWrite nat int int
  | XTruncate int
  | XSync int
  | XFileSize nat
  | XLock int
  | XUnlock int
  | XCheckReservedLock nat
  | XSectorSize
  | XDeviceCharacteristics
  | XShmLock int int int
  | XShmMap int int int nat
  | XShmBarrier
  | XShmUnmap int

datatype 'h event =
    EvOpen slot "string option" int "nat option"
  | EvDelete string int
  | EvIo slot 'h io_req
  | EvSleep int
  | EvMalloc
  | EvFree nat
  | EvVfsRegister string int

record io_methods =
  iVersion :: int
  xShmMap :: bool
  xShmLock :: bool
  xShmBarrier :: bool
  xShmUnmap :: bool

record ('h, 'w) env =
  xOpen :: "string option \<Rightarrow> int \<Rightarrow> nat option \<Rightarrow> 'w \<Rightarrow> (int \<times> 'h option) \<times> 'w"
  xDelete :: "string \<Rightarrow> int \<Rightarrow> 'w \<Rightarrow> int \<times> 'w"
  xMethod :: "'h \<Rightarrow> io_req \<Rightarrow> 'w \<Rightarrow> int \<times> 'w"
  pSub :: "'h \<Rightarrow> io_methods"
  sqlite3_malloc :: "'w \<Rightarrow> nat option \<times> 'w"
  sqlite3_free :: "nat \<Rightarrow> 'w \<Rightarrow> 'w"
  sqlite3_sleep :: "int \<Rightarrow> 'w \<Rightarrow> 'w"
  dirExists :: "string \<Rightarrow> 'w \<Rightarrow> bool"
  sqlite3_vfs_find :: "string option \<Rightarrow> 'w \<Rightarrow> bool"
  sqlite3_vfs_register :: "string \<Rightarrow> int \<Rightarrow> 'w \<Rightarrow> int \<times> 'w"

record ('h, 'w) sys =
  trace :: "'h event list"
  os :: 'w

definition call_xOpen ::
  "('h, 'w) env \<Rightarrow> slot \<Rightarrow> string option \<Rightarrow> int \<Rightarrow> nat option \<Rightarrow> ('h, 'w) sys
     \<Rightarrow> (int \<times> 'h option) \<times> ('h, 'w) sys" where
  "call_xOpen E k zName flags pOutFlags s =
     (let (r, w) = xOpen E zName flags pOutFlags (os s)
      in (r, s\<lparr>trace := trace s @ [EvOpen k zName flags pOutFlags], os := w\<rparr>))"


text \<open>\<^verbatim>\<open>f->pMethods->xFoo(f, ...)\<close> on the file object in slot \<open>k\<close>: a null \<^verbatim>\<open>pMethods\<close>
  is dereferenced.\<close>

definition call_method ::
  "('h, 'w) env \<Rightarrow> slot \<Rightarrow> 'h option \<Rightarrow> io_req \<Rightarrow> ('h, 'w) sys
     \<Rightarrow> error + (int \<times> ('h, 'w) sys)" where
  "call_method E k f req s =
     (case f of
        None \<Rightarrow> Inl NullPointer
      | Some h \<Rightarrow>
          (let (rc, w) = xMethod E h req (os s)
           in Inr (rc, s\<lparr>trace := trace s @ [EvIo k h req], os := w\<rparr>)))"

definition call_malloc :: "('h, 'w) env \<Rightarrow> ('h, 'w) sys \<Rightarrow> nat option \<times> ('h, 'w) sys" where
  "call_malloc E s =
     (let (a, w) = sqlite3_malloc E (os s)
      in (a, s\<lparr>trace := trace s @ [EvMalloc], os := w\<rparr>))"

text \<open>\<^verbatim>\<open>sqlite3_free\<close> of a null pointer does nothing.\<close>

definition call_free :: "('h, 'w) env \<Rightarrow> nat option \<Rightarrow> ('h, 'w) sys \<Rightarrow> ('h, 'w) sys" where
  "call_free E a s =
     (case a of
        None \<Rightarrow> s
      | Some x \<Rightarrow> s\<lparr>trace := trace s @ [EvFree x], os := sqlite3_free E x (os s)\<rparr>)"

definition call_sleep :: "('h, 'w) env \<Rightarrow> int \<Rightarrow> ('h, 'w) sys \<Rightarrow> ('h, 'w) sys" where
  "call_sleep E ms s = s\<lparr>trace := trace s @ [EvSleep ms], os := sqlite3_sleep E ms (os s)\<rparr>"

definition call_vfs_register ::
  "('h, 'w) env \<Rightarrow> string \<Rightarrow> int \<Rightarrow> ('h, 'w) sys \<Rightarrow> int \<times> ('h, 'w) sys" where
  "call_vfs_register E zName makeDefault s =
     (let (rc, w) = sqlite3_vfs_register E zName makeDefault (os s)
      in (rc, s\<lparr>trace := trace s @ [EvVfsRegister zName makeDefault], os := w\<rparr>))"

section \<open>The mirrored file handle\<close>

text \<open>
  \<^verbatim>\<open>struct vfsmirror_file\<close>. \<open>base_pMethods\<close> is \<^verbatim>\<open>base.pMethods\<close>: the address of the
  table \<^verbatim>\<open>vfsmirrorOpen\<close> allocated, with the shared-memory entries it wired, or null.
  \<open>pReal0\<close> is the file object \<^verbatim>\<open>pReal[0]\<close> points to (the pointer itself is never
  null once \<^verbatim>\<open>vfsmirrorOpen\<close> has run); \<open>pReal1 = None\<close> is \<^verbatim>\<open>pReal[1] == 0\<close>, and
  \<open>pReal1 = Some f\<close> a pointer to the file object \<open>f\<close>. \<^verbatim>\<open>pInfo\<close> only leads to the
  underlying VFS, which is the environment here.
\<close>

record 'h vfsmirror_file =
  base_pMethods :: "(nat \<times> io_methods) option"
  zFName :: "string option"
  zFname2 :: string
  pReal0 :: "'h option"
  pReal1 :: "'h option option"

subsection \<open>Operations passed to the primary file only\<close>

definition vfsmirrorRead ::
  "('h, 'w) env \<Rightarrow> 'h vfsmirror_file \<Rightarrow> nat \<Rightarrow> int \<Rightarrow> int \<Rightarrow> ('h, 'w) sys
     \<Rightarrow> error + (int \<times> ('h, 'w) sys)" where
  "vfsmirrorRead E p zBuf iAmt iOfst s = call_method E Primary (pReal0 p) (XRead zBuf iAmt iOfst) s"

definition vfsmirrorFileSize ::
  "('h, 'w) env \<Rightarrow> 'h vfsmirror_file \<Rightarrow> nat \<Rightarrow> ('h, 'w) sys \<Rightarrow> error + (int \<times> ('h, 'w) sys)" where
  "vfsmirrorFileSize E p pSize s = call_method E Primary (pReal0 p) (XFileSize pSize) s"

definition vfsmirrorLock ::
  "('h, 'w) env \<Rightarrow> 'h vfsmirror_file \<Rightarrow> int \<Rightarrow> ('h, 'w) sys \<Rightarrow> error + (int \<times> ('h, 'w) sys)" where
  "vfsmirrorLock E p eLock s = call_method E Primary (pReal0 p) (XLock eLock) s"

definition vfsmirrorUnlock ::
  "('h, 'w) env \<Rightarrow> 'h vfsmirror_file \<Rightarrow> int \<Rightarrow> ('h, 'w) sys \<Rightarrow> error + (int \<times> ('h, 'w) sys)" where
  "vfsmirrorUnlock E p eLock s = call_method E Primary (pReal0 p) (XUnlock eLock) s"

definition vfsmirrorCheckReservedLock ::
  "('h, 'w) env \<Rightarrow> 'h vfsmirror_file \<Rightarrow> nat \<Rightarrow> ('h, 'w) sys \<Rightarrow> error + (int \<times> ('h, 'w) sys)" where
  "vfsmirrorCheckReservedLock E p pResOut s =
     call_method E Primary (pReal0 p) (XCheckReservedLock pResOut) s"

definition vfsmirrorSectorSize ::
  "('h, 'w) env \<Rightarrow> 'h vfsmirror_file \<Rightarrow> ('h, 'w) sys \<Rightarrow> error + (int \<times> ('h, 'w) sys)" where
  "vfsmirrorSectorSize E p s = call_method E Primary (pReal0 p) XSectorSize s"

definition vfsmirrorDeviceCharacteristics ::
  "('h, 'w) env \<Rightarrow> 'h vfsmirror_file \<Rightarrow> ('h, 'w) sys \<Rightarrow> error + (int \<times> ('h, 'w) sys)" where
  "vfsmirrorDeviceCharacteristics E p s = call_method E Primary (pReal0 p) XDeviceCharacteristics s"

definition vfsmirrorShmLock ::
  "('h, 'w) env \<Rightarrow> 'h vfsmirror_file \<Rightarrow> int \<Rightarrow> int \<Rightarrow> int \<Rightarrow> ('h, 'w) sys
     \<Rightarrow> error + (int \<times> ('h, 'w) sys)" where
  "vfsmirrorShmLock E p ofst n flags s = call_method E Primary (pReal0 p) (XShmLock ofst n flags) s"

definition vfsmirrorShmMap ::
  "('h, 'w) env \<Rightarrow> 'h vfsmirror_file \<Rightarrow> int \<Rightarrow> int \<Rightarrow> int \<Rightarrow> nat \<Rightarrow> ('h, 'w) sys
     \<Rightarrow> error + (int \<times> ('h, 'w) sys)" where
  "vfsmirrorShmMap E p iRegion szRegion isWrite pp s =
     call_method E Primary (pReal0 p) (XShmMap iRegion szRegion isWrite pp) s"

text \<open>\<^verbatim>\<open>xShmBarrier\<close> returns nothing: only the state after the call is kept.\<close>

definition vfsmirrorShmBarrier ::
  "('h, 'w) env \<Rightarrow> 'h vfsmirror_file \<Rightarrow> ('h, 'w) sys \<Rightarrow> error + ('h, 'w) sys" where
  "vfsmirrorShmBarrier E p s =
     (case call_method E Primary (pReal0 p) XShmBarrier s of
        Inl e \<Rightarrow> Inl e
      | Inr (rc, s1) \<Rightarrow> Inr s1)"

definition vfsmirrorShmUnmap ::
  "('h, 'w) env \<Rightarrow> 'h vfsmirror_file \<Rightarrow> int \<Rightarrow> ('h, 'w) sys \<Rightarrow> error + (int \<times> ('h, 'w) sys)" where
  "vfsmirrorShmUnmap E p delFlag s = call_method E Primary (pReal0 p) (XShmUnmap delFlag) s"

subsection \<open>Operations passed to both files\<close>

text \<open>
  \<^verbatim>\<open>rc = p->pReal[0]->pMethods->xFoo(...); if (p->pReal[1]) { rc1 = p->pReal[1]->...; }\<close>
  with \<^verbatim>\<open>rc1\<close> initialised to \<^verbatim>\<open>SQLITE_OK\<close>: the shape \<^verbatim>\<open>vfsmirrorWrite\<close>,
  \<^verbatim>\<open>vfsmirrorTruncate\<close>, \<^verbatim>\<open>vfsmirrorSync\<close> and \<^verbatim>\<open>vfsmirrorClose\<close> share.
  (\<^verbatim>\<open>vfsmirrorFileControl\<close> has it too, and then rewrites the string its argument points
  to; no property below is about it, and it is not modelled.)
\<close>

definition call_both ::
  "build \<Rightarrow> ('h, 'w) env \<Rightarrow> 'h vfsmirror_file \<Rightarrow> io_req \<Rightarrow> ('h, 'w) sys
     \<Rightarrow> error + (int \<times> int \<times> ('h, 'w) sys)" where
  "call_both K E p req s =
     (case call_method E Primary (pReal0 p) req s of
        Inl e \<Rightarrow> Inl e
      | Inr (rc, s1) \<Rightarrow>
          (case pReal1 p of
             None \<Rightarrow> Inr (rc, SQLITE_OK K, s1)
           | Some f \<Rightarrow>
               (case call_method E Replica f req s1 of
                  Inl e \<Rightarrow> Inl e
                | Inr (rc1, s2) \<Rightarrow> Inr (rc, rc1, s2))))"

definition vfsmirrorWrite ::
  "build \<Rightarrow> ('h, 'w) env \<Rightarrow> 'h vfsmirror_file \<Rightarrow> nat \<Rightarrow> int \<Rightarrow> int \<Rightarrow> ('h, 'w) sys
     \<Rightarrow> error + (int \<times> ('h, 'w) sys)" where
  "vfsmirrorWrite K E p zBuf iAmt iOfst s =
     (case call_both K E p (XWrite zBuf iAmt iOfst) s of
        Inl e \<Rightarrow> Inl e
      | Inr (rc, rc1, s2) \<Rightarrow> Inr (RETURN_CODE K rc rc1, s2))"

definition vfsmirrorTruncate ::
  "build \<Rightarrow> ('h, 'w) env \<Rightarrow> 'h vfsmirror_file \<Rightarrow> int \<Rightarrow> ('h, 'w) sys
     \<Rightarrow> error + (int \<times> ('h, 'w) sys)" where
  "vfsmirrorTruncate K E p sz s =
     (case call_both K E p (XTruncate sz) s of
        Inl e \<Rightarrow> Inl e
      | Inr (rc, rc1, s2) \<Rightarrow> Inr (RETURN_CODE K rc rc1, s2))"

definition vfsmirrorSync ::
  "build \<Rightarrow> ('h, 'w) env \<Rightarrow> 'h vfsmirror_file \<Rightarrow> int \<Rightarrow> ('h, 'w) sys
     \<Rightarrow> error + (int \<times> ('h, 'w) sys)" where
  "vfsmirrorSync K E p flags s =
     (case call_both K E p (XSync flags) s of
        Inl e \<Rightarrow> Inl e
      | Inr (rc, rc1, s2) \<Rightarrow> Inr (RETURN_CODE K rc rc1, s2))"

text \<open>
  \<^verbatim>\<open>if (rc == SQLITE_OK) { sqlite3_free((void*)p->base.pMethods); p->base.pMethods = 0; }
  return RETURN_CODE(rc, rc1);\<close>
\<close>

definition vfsmirrorClose ::
  "build \<Rightarrow> ('h, 'w) env \<Rightarrow> 'h vfsmirror_file \<Rightarrow> ('h, 'w) sys
     \<Rightarrow> error + (int \<times> 'h vfsmirror_file \<times> ('h, 'w) sys)" where
  "vfsmirrorClose K E p s =
     (case call_both K E p XClose s of
        Inl e \<Rightarrow> Inl e
      | Inr (rc, rc1, s2) \<Rightarrow>
          if rc = SQLITE_OK K
          then Inr (RETURN_CODE K rc rc1, p\<lparr>base_pMethods := None\<rparr>,
                    call_free E (map_option fst (base_pMethods p)) s2)
          else Inr (RETURN_CODE K rc rc1, p, s2))"

section \<open>The shim's VFS methods\<close>

subsection \<open>Opening a file\<close>

text \<open>
  \<^verbatim>\<open>retry = 10;
  while (retry > 0 && (rc1 = pRoot->xOpen(pRoot, p->zFname2, p->pReal[1], flags, pOutFlags)) != SQLITE_OK) {
      sqlite3_sleep(5); retry--; }\<close>
  The loop carries \<^verbatim>\<open>rc1\<close> and the file object in the replica's slot as the last
  \<^verbatim>\<open>xOpen\<close> left them.
\<close>

fun replica_retry ::
  "build \<Rightarrow> ('h, 'w) env \<Rightarrow> string \<Rightarrow> int \<Rightarrow> nat option \<Rightarrow> nat \<Rightarrow> int \<times> 'h option
     \<Rightarrow> ('h, 'w) sys \<Rightarrow> (int \<times> 'h option) \<times> ('h, 'w) sys" where
  "replica_retry K E path flags pOutFlags 0 r s = (r, s)"
| "replica_retry K E path flags pOutFlags (Suc retry) r s =
     (let (r1, s1) = call_xOpen E Replica (Some path) flags pOutFlags s
      in if fst r1 \<noteq> SQLITE_OK K
         then replica_retry K E path flags pOutFlags retry r1 (call_sleep E 5 s1)
         else (r1, s1))"

text \<open>
  \<^verbatim>\<open>if (p->pReal[0]->pMethods) { pNew = sqlite3_malloc(sizeof(*pNew)); memset(pNew, 0, ...);
  pNew->iVersion = 2; ...; pNew->xShmMap = pSub->xShmMap ? vfsmirrorShmMap : 0; ...;
  pFile->pMethods = pNew; }\<close>
  The result of \<^verbatim>\<open>sqlite3_malloc\<close> is not checked: a null \<^verbatim>\<open>pNew\<close> goes to
  \<^verbatim>\<open>memset\<close>. The twelve methods that are always wired are not recorded.
\<close>

definition install_methods ::
  "('h, 'w) env \<Rightarrow> 'h vfsmirror_file \<Rightarrow> ('h, 'w) sys
     \<Rightarrow> error + ('h vfsmirror_file \<times> ('h, 'w) sys)" where
  "install_methods E p s =
     (case pReal0 p of
        None \<Rightarrow> Inr (p, s)
      | Some h \<Rightarrow>
          (case call_malloc E s of
             (None, s1) \<Rightarrow> Inl NullPointer
           | (Some a, s1) \<Rightarrow>
               Inr (p\<lparr>base_pMethods :=
                        Some (a, \<lparr>iVersion = 2,
                                  xShmMap = xShmMap (pSub E h),
                                  xShmLock = xShmLock (pSub E h),
                                  xShmBarrier = xShmBarrier (pSub E h),
                                  xShmUnmap = xShmUnmap (pSub E h)\<rparr>)\<rparr>, s1)))"

text \<open>
  \<^verbatim>\<open>vfsmirrorOpen\<close>. \<open>p\<close> is the memory the caller hands in for the file: the fields
  the function does not write keep the caller's values. The file object of the replica
  before the first attempt is never seen, since \<^verbatim>\<open>retry\<close> starts at 10.
\<close>

definition vfsmirrorOpen ::
  "build \<Rightarrow> ('h, 'w) env \<Rightarrow> globals \<Rightarrow> string option \<Rightarrow> 'h vfsmirror_file \<Rightarrow> int
     \<Rightarrow> nat option \<Rightarrow> ('h, 'w) sys \<Rightarrow> error + (int \<times> 'h vfsmirror_file \<times> ('h, 'w) sys)" where
  "vfsmirrorOpen K E g zName p flags pOutFlags s =
     (case (case zName of None \<Rightarrow> Inr (Some ''<temp>'') | Some z \<Rightarrow> fileTail (Some z)) of
        Inl e \<Rightarrow> Inl e
      | Inr tail \<Rightarrow>
          (let ((rc, f0), s1) = call_xOpen E Primary zName flags pOutFlags s
           in case install_methods E (p\<lparr>zFName := tail, pReal0 := f0\<rparr>) s1 of
                Inl e \<Rightarrow> Inl e
              | Inr (p2, s2) \<Rightarrow>
                  if zName \<noteq> None \<and> rc = SQLITE_OK K
                     \<and> flags AND (SQLITE_OPEN_MAIN_DB K OR SQLITE_OPEN_MAIN_JOURNAL K) \<noteq> 0
                  then
                    (case vfsmirrorReplicaPath g (zFName p2) (NAME_MAX K) of
                       Inl e \<Rightarrow> Inl e
                     | Inr path \<Rightarrow>
                         (let ((rc1, f1), s3) =
                                replica_retry K E path flags pOutFlags 10 (SQLITE_OK K, None) s2
                          in Inr (RETURN_CODE K rc rc1,
                                  p2\<lparr>zFname2 := path, pReal1 := Some f1\<rparr>, s3)))
                  else Inr (RETURN_CODE K rc (SQLITE_OK K), p2\<lparr>pReal1 := None\<rparr>, s2)))"

subsection \<open>Deleting a file\<close>


section \<open>Registration and the replica directory\<close>

text \<open>
  \<^verbatim>\<open>vfsmirror_register\<close>, as far as its caller can see it: it finds the underlying
  VFS, allocates the new one and registers it. The fields it copies into the new VFS are
  left out.
\<close>

definition vfsmirror_register ::
  "build \<Rightarrow> ('h, 'w) env \<Rightarrow> string \<Rightarrow> string option \<Rightarrow> int \<Rightarrow> ('h, 'w) sys
     \<Rightarrow> int \<times> ('h, 'w) sys" where
  "vfsmirror_register K E zTraceName zOldVfsName makeDefault s =
     (if sqlite3_vfs_find E zOldVfsName (os s) then
        (case call_malloc E s of
           (None, s1) \<Rightarrow> (SQLITE_NOMEM K, s1)
         | (Some a, s1) \<Rightarrow> call_vfs_register E zTraceName makeDefault s1)
      else (SQLITE_NOTFOUND K, s))"

text \<open>
  \<^verbatim>\<open>snprintf(zSlaveDir, NAME_MAX, slave_dir)\<close>: the path is the format string. \<^verbatim>\<open>%%\<close>
  prints one \<^verbatim>\<open>%\<close>; any other directive reads an argument that was not passed.
\<close>

fun snprintf_expand :: "string \<Rightarrow> error + string" where
  "snprintf_expand [] = Inr []"
| "snprintf_expand [c] = (if c = CHR ''%'' then Inl FormatDirective else Inr [c])"
| "snprintf_expand (c # d # cs) =
     (if c = CHR ''%'' then
        (if d = CHR ''%'' then map_sum id ((#) c) (snprintf_expand cs) else Inl FormatDirective)
      else map_sum id ((#) c) (snprintf_expand (d # cs)))"

definition snprintf :: "char list \<Rightarrow> nat \<Rightarrow> string \<Rightarrow> error + char list" where
  "snprintf buf n fmt =
     (case snprintf_expand fmt of
        Inl e \<Rightarrow> Inl e
      | Inr out \<Rightarrow>
          if n = 0 then Inr buf
          else if length buf < length (take (n - 1) out) + 1 then Inl BufferOverflow
          else Inr (take (n - 1) out @ [NUL] @ drop (length (take (n - 1) out) + 1) buf))"

text \<open>\<^verbatim>\<open>zSlaveDir[k]\<close>: the array has no element outside \<open>[0, length buf)\<close>.\<close>

definition buf_at :: "char list \<Rightarrow> int \<Rightarrow> error + char" where
  "buf_at buf k = (if 0 \<le> k \<and> k < int (length buf) then Inr (buf ! nat k) else Inl (OutOfBounds k))"

text \<open>
  \<^verbatim>\<open>while (zSlaveDir[converted - 1] == '/' || zSlaveDir[converted - 1] == '\\' && converted > 0) {
      converted--; zSlaveDir[converted] = 0; }\<close>
  \<^verbatim>\<open>&&\<close> binds tighter than \<^verbatim>\<open>||\<close>, and \<^verbatim>\<open>zSlaveDir[converted - 1]\<close> is read before
  \<^verbatim>\<open>converted > 0\<close> is looked at. \<^verbatim>\<open>converted\<close> is a \<^verbatim>\<open>size_t\<close>: at 0 the index
  \<^verbatim>\<open>converted - 1\<close> wraps to the largest \<^verbatim>\<open>size_t\<close>, which addresses the byte before
  the array; the model calls it index \<open>-1\<close>.
\<close>

function trim_loop :: "char list \<Rightarrow> nat \<Rightarrow> error + (char list \<times> nat)" where
  "trim_loop buf converted =
     (case buf_at buf (int converted - 1) of
        Inl e \<Rightarrow> Inl e
      | Inr c \<Rightarrow>
          if c = slash \<or> (c = backslash \<and> converted > 0)
          then trim_loop (buf[converted - 1 := NUL]) (converted - 1)
          else Inr (buf, converted))"
  by pat_completeness auto
termination
  by (relation "measure (\<lambda>(buf, converted). converted)")
     (auto simp: buf_at_def split: if_splits)

definition set_mirror_directory ::
  "build \<Rightarrow> ('h, 'w) env \<Rightarrow> string option \<Rightarrow> globals \<Rightarrow> ('h, 'w) sys
     \<Rightarrow> error + (int \<times> globals \<times> ('h, 'w) sys)" where
  "set_mirror_directory K E slave_dir g s =
     (if registered g \<noteq> 0 then Inr (0, g, s)
      else
        (case slave_dir of
           None \<Rightarrow> Inl NullPointer
         | Some d \<Rightarrow>
             if length d \<ge> NAME_MAX K then Inr (0, g, s)
             else
               (case snprintf (zSlaveDir g) (NAME_MAX K) d of
                  Inl e \<Rightarrow> Inl e
                | Inr buf \<Rightarrow>
                    (case trim_loop buf (length d) of
                       Inl e \<Rightarrow> Inl e
                     | Inr (buf1, converted) \<Rightarrow>
                         if converted < 2 then Inr (0, g\<lparr>zSlaveDir := buf1\<rparr>, s)
                         else
                           (case cstr buf1 of
                              Inl e \<Rightarrow> Inl e
                            | Inr dir \<Rightarrow>
                                if dirExists E dir (os s) then
                                  (let (rc, s1) = vfsmirror_register K E ''trace'' None 1 s
                                   in Inr (1, g\<lparr>zSlaveDir := buf1, registered := 1\<rparr>, s1))
                                else Inr (0, g\<lparr>zSlaveDir := buf1\<rparr>, s))))))"

section \<open>What a call added to the trace\<close>

definition new_events :: "('h, 'w) sys \<Rightarrow> ('h, 'w) sys \<Rightarrow> 'h event list" where
  "new_events s s' = drop (length (trace s)) (trace s')"

fun is_replica_open :: "'h event \<Rightarrow> bool" where
  "is_replica_open (EvOpen Replica zName flags pOutFlags) = True"
| "is_replica_open e = False"

definition replica_opens :: "'h event list \<Rightarrow> 'h event list" where
  "replica_opens evs = filter is_replica_open evs"

text \<open>
  The status codes the replica opens of one run of the retry loop return, in order. The
  function follows \<open>replica_retry\<close> step by step: one code for each \<^verbatim>\<open>xOpen\<close>, and
  another attempt only after a code other than \<^verbatim>\<open>SQLITE_OK\<close> and the sleep.
\<close>

fun replica_attempts ::
  "build \<Rightarrow> ('h, 'w) env \<Rightarrow> string \<Rightarrow> int \<Rightarrow> nat option \<Rightarrow> nat \<Rightarrow> ('h, 'w) sys \<Rightarrow> int list" where
  "replica_attempts K E path flags pOutFlags 0 s = []"
| "replica_attempts K E path flags pOutFlags (Suc retry) s =
     (let (r1, s1) = call_xOpen E Replica (Some path) flags pOutFlags s
      in fst r1 #
         (if fst r1 \<noteq> SQLITE_OK K
          then replica_attempts K E path flags pOutFlags retry (call_sleep E 5 s1)
          else []))"

text \<open>
  The state in which \<^verbatim>\<open>vfsmirrorOpen\<close> reaches its retry loop: after the \<^verbatim>\<open>xOpen\<close> of
  the primary file and the allocation of the method table.
\<close>

definition before_replica ::
  "('h, 'w) env \<Rightarrow> string option \<Rightarrow> 'h vfsmirror_file \<Rightarrow> int \<Rightarrow> nat option \<Rightarrow> ('h, 'w) sys
     \<Rightarrow> ('h, 'w) sys" where
  "before_replica E zName p flags pOutFlags s =
     (let ((rc, f0), s1) = call_xOpen E Primary zName flags pOutFlags s
      in case install_methods E (p\<lparr>pReal0 := f0\<rparr>) s1 of
           Inl e \<Rightarrow> s1
         | Inr (p2, s2) \<Rightarrow> s2)"

section \<open>Notions used to state the properties\<close>

text \<open>The two characters the source treats as path separators.\<close>

definition is_sep :: "char \<Rightarrow> bool" where
  "is_sep c = (c = slash \<or> c = backslash)"

text \<open>
  The base name of a path as the specification words it, "the final path component":
  what follows the last separator. It is compared with what \<open>fileTail\<close> computes.
\<close>

definition base_name :: "string \<Rightarrow> string" where
  "base_name p = rev (takeWhile (\<lambda>c. \<not> is_sep c) (rev p))"

text \<open>
  A call of one method of the primary file and nothing else: the call fails on a null
  \<^verbatim>\<open>pMethods\<close> before anything is invoked, or it appends exactly that call to the trace.
\<close>

definition primary_only ::
  "'h vfsmirror_file \<Rightarrow> io_req \<Rightarrow> ('h, 'w) sys \<Rightarrow> error + ('h, 'w) sys \<Rightarrow> bool" where
  "primary_only p req s r =
     (case r of
        Inl e \<Rightarrow> pReal0 p = None \<and> e = NullPointer
      | Inr s' \<Rightarrow>
          (case pReal0 p of
             None \<Rightarrow> False
           | Some h \<Rightarrow> trace s' = trace s @ [EvIo Primary h req]))"

subsection \<open>A concrete environment\<close>

text \<open>
  An underlying VFS for the concrete runs below. It opens the paths listed in \<open>ok\<close> (and
  nameless files), handing out the world's counter as file name, and answers
  \<^verbatim>\<open>SQLITE_CANTOPEN\<close> (14) for any other path; a method of a file listed in \<open>bad\<close>
  answers \<^verbatim>\<open>SQLITE_IOERR\<close> (10); the only directory is \<open>D:/m\<close>.
\<close>

definition demo_env :: "string list \<Rightarrow> nat list \<Rightarrow> (nat, nat) env" where
  "demo_env ok bad =
     \<lparr>xOpen = (\<lambda>zName flags pOutFlags w.
                 case zName of
                   None \<Rightarrow> ((0, Some w), Suc w)
                 | Some z \<Rightarrow> if z \<in> set ok then ((0, Some w), Suc w) else ((14, None), w)),
      xDelete = (\<lambda>zPath dirSync w. (if zPath \<in> set ok then 0 else 10, Suc w)),
      xMethod = (\<lambda>h req w. (if h \<in> set bad then 10 else 0, Suc w)),
      pSub = (\<lambda>h. \<lparr>iVersion = 3, xShmMap = True, xShmLock = True,
                     xShmBarrier = True, xShmUnmap = True\<rparr>),
      sqlite3_malloc = (\<lambda>w. (Some w, Suc w)),
      sqlite3_free = (\<lambda>a w. Suc w),
      sqlite3_sleep = (\<lambda>ms w. Suc w),
      dirExists = (\<lambda>dir w. dir = ''D:/m''),
      sqlite3_vfs_find = (\<lambda>zName w. True),
      sqlite3_vfs_register = (\<lambda>zName makeDefault w. (0, Suc w))\<rparr>"

text \<open>The variables as the program starts, and after \<open>D:/m\<close> was configured.\<close>

definition globals_init :: globals where
  "globals_init = \<lparr>zSlaveDir = replicate 260 NUL, registered = 0\<rparr>"

definition globals_demo :: globals where
  "globals_demo = \<lparr>zSlaveDir = ''D:/m'' @ replicate 256 NUL, registered = 1\<rparr>"

definition sys_init :: "(nat, nat) sys" where
  "sys_init = \<lparr>trace = [], os = 0\<rparr>"

definition file_init :: "nat vfsmirror_file" where
  "file_init = \<lparr>base_pMethods = None, zFName = None, zFname2 = [], pReal0 = None, pReal1 = None\<rparr>"

text \<open>A handle with both files open (1 and 2) and its method table at address 7.\<close>

definition file_demo :: "nat vfsmirror_file" where
  "file_demo =
     \<lparr>base_pMethods = Some (7, \<lparr>iVersion = 2, xShmMap = True, xShmLock = True,
                                 xShmBarrier = True, xShmUnmap = True\<rparr>),
      zFName = Some ''test.db'', zFname2 = ''D:/m'' @ [backslash] @ ''test.db'',
      pReal0 = Some 1, pReal1 = Some (Some 2)\<rparr>"

text \<open>The database of the concrete runs, its replica path under \<open>D:/m\<close>, and the method table
  \<^verbatim>\<open>vfsmirrorOpen\<close> builds over this environment.\<close>

definition demo_db :: string where
  "demo_db = ''/a/b/test.db''"

definition demo_replica :: string where
  "demo_replica = ''D:/m'' @ [backslash] @ ''test.db''"

definition demo_methods :: io_methods where
  "demo_methods = \<lparr>iVersion = 2, xShmMap = True, xShmLock = True, xShmBarrier = True, xShmUnmap = True\<rparr>"

section \<open>The tail of a path name: properties\<close>

declare fileTail_loop.simps [simp del]
declare trim_loop.simps [simp del]

lemma strlen_minus_1_small:
  assumes "length z < 2 ^ 31"
  shows "strlen_minus_1 z = int (length z) - 1"
proof (cases "length z")
  case 0
  then show ?thesis by (simp add: strlen_minus_1_def)
next
  case (Suc n)
  have "sint (word_of_nat n :: 32 word) = signed_take_bit 31 (int n)"
    by (simp add: signed_of_nat)
  also have "\<dots> = int n"
    using assms Suc by (intro signed_take_bit_int_eq_self) auto
  finally show ?thesis
    using Suc by (simp add: strlen_minus_1_def)
qed

text \<open>The loop stops at the last separator strictly before position \<open>i\<close>, or at 0.\<close>

lemma fileTail_loop_nat:
  "i \<le> length z \<Longrightarrow>
   fileTail_loop z (int i) = Inr (int (length (dropWhile (\<lambda>c. \<not> is_sep c) (rev (take i z)))))"
proof (induction i)
  case 0
  show ?case by (simp add: fileTail_loop.simps[of z 0])
next
  case (Suc i)
  then have lt: "i < length z" by simp
  have ch: "char_at z (int i) = Inr (z ! i)"
    using lt by (simp add: char_at_def)
  have tk: "rev (take (Suc i) z) = z ! i # rev (take i z)"
    using lt by (simp add: take_Suc_conv_app_nth)
  show ?case
  proof (cases "is_sep (z ! i)")
    case True
    then show ?thesis
      using lt by (subst fileTail_loop.simps) (auto simp: ch tk is_sep_def)
  next
    case False
    then show ?thesis
      using Suc.IH lt by (subst fileTail_loop.simps) (auto simp: ch tk is_sep_def)
  qed
qed

text \<open>
  On a non-empty path \<open>fileTail\<close> never looks at the last character: it returns the base
  name of the path without its last character, followed by that character.
\<close>

lemma fileTail_nonempty:
  assumes "z \<noteq> []" and "length z < 2 ^ 31"
  shows "fileTail (Some z) = Inr (Some (base_name (butlast z) @ [last z]))"
proof -
  let ?P = "\<lambda>c. \<not> is_sep c"
  let ?j = "length (dropWhile ?P (rev (butlast z)))"
  have z: "z = butlast z @ [last z]" using assms(1) by simp
  have "strlen_minus_1 z = int (length z - 1)"
    using assms by (cases z) (simp_all add: strlen_minus_1_small)
  moreover have "fileTail_loop z (int (length z - 1))
      = Inr (int (length (dropWhile ?P (rev (take (length z - 1) z)))))"
    by (rule fileTail_loop_nat) simp
  ultimately have idx: "fileTail_index z = Inr (int ?j)"
    by (simp only: fileTail_index_def butlast_conv_take)
  have jle: "?j \<le> length (butlast z)"
    using length_dropWhile_le[of ?P "rev (butlast z)"] by simp
  have split: "butlast z = rev (dropWhile ?P (rev (butlast z))) @ base_name (butlast z)"
    unfolding base_name_def
    by (metis rev_append rev_rev_ident takeWhile_dropWhile_id)
  have "drop ?j (rev (dropWhile ?P (rev (butlast z))) @ base_name (butlast z))
          = base_name (butlast z)"
    by simp
  then have "drop ?j (butlast z) = base_name (butlast z)"
    using split by simp
  then have "drop ?j (butlast z @ [last z]) = base_name (butlast z) @ [last z]"
    using jle by simp
  then have "drop ?j z = base_name (butlast z) @ [last z]"
    using z by simp
  moreover have "?j \<le> length z" using jle by simp
  ultimately show ?thesis
    by (simp add: fileTail_def idx)
qed

text \<open>
  Claim C10 says that \<open>fileTail\<close> stays inside its argument for every string, the empty
  one included. On the empty string the index is \<open>strlen(z) - 1 = -1\<close>, the loop is not
  entered, and the pointer returned is \<^verbatim>\<open>&z[-1]\<close>, before the string;
  \<^verbatim>\<open>vfsmirrorOpen\<close> reaches this with an empty file name.
\<close>

theorem fileTail_empty_string:
  "fileTail_index [] = Inr (- 1)
   \<and> fileTail (Some []) = Inl (OutOfBounds (- 1))
   \<and> vfsmirrorOpen K E g (Some []) p flags pOutFlags s = Inl (OutOfBounds (- 1))"
proof -
  have i: "fileTail_index [] = Inr (- 1)"
    by (simp add: fileTail_index_def strlen_minus_1_def fileTail_loop.simps)
  then have t: "fileTail (Some []) = Inl (OutOfBounds (- 1))"
    by (simp add: fileTail_def)
  show ?thesis
    using i t by (simp add: vfsmirrorOpen_def)
qed

section \<open>Reconciling two status codes: properties\<close>

text \<open>
  Claim C2: \<open>combine(OK, OK) = OK\<close>; \<open>combine(E, OK) = E\<close> and \<open>combine(OK, E) = E\<close> for
  every \<open>E\<close> other than OK; \<open>combine(E1, E2) = E1\<close> when neither is OK;
  \<open>combine(E, E) = E\<close>. The primary's code is the first argument.
\<close>

theorem RETURN_CODE_rules:
  assumes "e \<noteq> SQLITE_OK K" and "e1 \<noteq> SQLITE_OK K" and "e2 \<noteq> SQLITE_OK K"
  shows "RETURN_CODE K (SQLITE_OK K) (SQLITE_OK K) = SQLITE_OK K
       \<and> RETURN_CODE K e (SQLITE_OK K) = e
       \<and> RETURN_CODE K (SQLITE_OK K) e = e
       \<and> RETURN_CODE K e1 e2 = e1
       \<and> RETURN_CODE K e e = e"
  using assms by (simp add: RETURN_CODE_def)

theorem RETURN_CODE_rules_witness:
  "RETURN_CODE sqlite3_std 0 0 = 0
   \<and> RETURN_CODE sqlite3_std 10 0 = 10
   \<and> RETURN_CODE sqlite3_std 0 10 = 10
   \<and> RETURN_CODE sqlite3_std 14 13 = 14
   \<and> RETURN_CODE sqlite3_std 10 10 = 10"
proof -
  have a: "(10::int) \<noteq> SQLITE_OK sqlite3_std" and b: "(14::int) \<noteq> SQLITE_OK sqlite3_std"
    and c: "(13::int) \<noteq> SQLITE_OK sqlite3_std"
    by (simp_all add: sqlite3_std_def)
  show ?thesis
    using RETURN_CODE_rules[OF a b c] by (simp add: sqlite3_std_def)
qed

section \<open>Configuring the replica directory: properties\<close>

text \<open>While every character below \<open>n\<close> is a separator the trimming loop goes on, down to
  \<open>converted = 0\<close>, where it reads \<^verbatim>\<open>zSlaveDir[converted - 1]\<close>.\<close>

lemma trim_loop_all_separators:
  "n \<le> length buf \<Longrightarrow> (\<forall>i<n. is_sep (buf ! i)) \<Longrightarrow> trim_loop buf n = Inl (OutOfBounds (- 1))"
proof (induction n arbitrary: buf)
  case 0
  show ?case by (subst trim_loop.simps) (simp add: buf_at_def)
next
  case (Suc n)
  have rd: "buf_at buf (int (Suc n) - 1) = Inr (buf ! n)"
    using Suc.prems(1) by (simp add: buf_at_def)
  have sep: "buf ! n = slash \<or> buf ! n = backslash \<and> 0 < Suc n"
    using Suc.prems(2) by (auto simp: is_sep_def)
  have "trim_loop (buf[n := NUL]) n = Inl (OutOfBounds (- 1))"
    using Suc.prems by (intro Suc.IH) auto
  then show ?case
    using sep by (subst trim_loop.simps) (simp only: rd sum.case if_True diff_Suc_1)
qed

lemma snprintf_expand_plain:
  "CHR ''%'' \<notin> set d \<Longrightarrow> snprintf_expand d = Inr d"
  by (induction d rule: snprintf_expand.induct) auto

lemma percent_not_sep: "\<not> is_sep (CHR ''%'')"
  by (simp add: is_sep_def slash_def backslash_def)

text \<open>
  Claim C8: for a degenerate path, the empty string or one made of path separators only
  such as \<open>/\<close>, the loop of \<^verbatim>\<open>set_mirror_directory\<close> that trims trailing separators
  reads \<^verbatim>\<open>zSlaveDir\<close> at index \<open>-1\<close>: \<^verbatim>\<open>converted > 0\<close> guards only the backslash
  test, and is looked at after the read.
\<close>

theorem trim_loop_reads_before_array:
  assumes "registered g = 0" and "length d < NAME_MAX K" and "length (zSlaveDir g) = NAME_MAX K"
    and "list_all is_sep d"
  shows "set_mirror_directory K E (Some d) g s = Inl (OutOfBounds (- 1))"
proof -
  have np: "CHR ''%'' \<notin> set d"
    using assms(4) percent_not_sep unfolding list_all_iff by blast
  let ?buf = "d @ [NUL] @ drop (length d + 1) (zSlaveDir g)"
  have sn: "snprintf (zSlaveDir g) (NAME_MAX K) d = Inr ?buf"
    using assms(2,3) by (simp add: snprintf_def snprintf_expand_plain[OF np])
  have "trim_loop ?buf (length d) = Inl (OutOfBounds (- 1))"
    using assms(4) by (intro trim_loop_all_separators) (auto simp: list_all_length nth_append)
  then show ?thesis
    using assms(1,2) by (simp add: set_mirror_directory_def sn)
qed

theorem trim_loop_reads_before_array_witness:
  "set_mirror_directory sqlite3_std (demo_env [] []) (Some []) globals_init sys_init
     = Inl (OutOfBounds (- 1))
   \<and> set_mirror_directory sqlite3_std (demo_env [] []) (Some [slash]) globals_init sys_init
     = Inl (OutOfBounds (- 1))"
proof -
  have r: "registered globals_init = 0" by (simp add: globals_init_def)
  have l: "length (zSlaveDir globals_init) = NAME_MAX sqlite3_std"
    by (simp add: globals_init_def sqlite3_std_def)
  have n0: "length ([]::string) < NAME_MAX sqlite3_std"
    and n1: "length [slash] < NAME_MAX sqlite3_std"
    by (simp_all add: sqlite3_std_def)
  have s0: "list_all is_sep []" and s1: "list_all is_sep [slash]"
    by (simp_all add: is_sep_def)
  show ?thesis
    using trim_loop_reads_before_array[OF r n0 l s0, where E = "demo_env [] []" and s = sys_init]
      trim_loop_reads_before_array[OF r n1 l s1, where E = "demo_env [] []" and s = sys_init]
    by (rule conjI)
qed

section \<open>The mirrored file handle: properties\<close>

lemma call_method_primary_only:
  "primary_only p req s (map_sum id snd (call_method E Primary (pReal0 p) req s))"
  by (cases "pReal0 p") (simp_all add: primary_only_def call_method_def split: prod.split)

text \<open>
  Claim C5: read, fileSize, lock, unlock, checkReservedLock, sectorSize,
  deviceCharacteristics and the four shared-memory operations call the method of the
  primary file and nothing else, whatever the handle holds in its replica slot: each
  either stops on a null \<^verbatim>\<open>pMethods\<close> of the primary file or adds exactly one
  event, on the primary file, to the trace.
\<close>

theorem read_side_uses_primary_only:
  "primary_only p (XRead zBuf iAmt iOfst) s (map_sum id snd (vfsmirrorRead E p zBuf iAmt iOfst s))
   \<and> primary_only p (XFileSize pSize) s (map_sum id snd (vfsmirrorFileSize E p pSize s))
   \<and> primary_only p (XLock eLock) s (map_sum id snd (vfsmirrorLock E p eLock s))
   \<and> primary_only p (XUnlock eLock) s (map_sum id snd (vfsmirrorUnlock E p eLock s))
   \<and> primary_only p (XCheckReservedLock pResOut) s
        (map_sum id snd (vfsmirrorCheckReservedLock E p pResOut s))
   \<and> primary_only p XSectorSize s (map_sum id snd (vfsmirrorSectorSize E p s))
   \<and> primary_only p XDeviceCharacteristics s
        (map_sum id snd (vfsmirrorDeviceCharacteristics E p s))
   \<and> primary_only p (XShmLock ofst n flags) s (map_sum id snd (vfsmirrorShmLock E p ofst n flags s))
   \<and> primary_only p (XShmMap iRegion szRegion isWrite pp) s
        (map_sum id snd (vfsmirrorShmMap E p iRegion szRegion isWrite pp s))
   \<and> primary_only p XShmBarrier s (vfsmirrorShmBarrier E p s)
   \<and> primary_only p (XShmUnmap delFlag) s (map_sum id snd (vfsmirrorShmUnmap E p delFlag s))"
proof -
  have b: "vfsmirrorShmBarrier E p s = map_sum id snd (call_method E Primary (pReal0 p) XShmBarrier s)"
    by (simp add: vfsmirrorShmBarrier_def split: sum.split)
  show ?thesis
    unfolding b vfsmirrorRead_def vfsmirrorFileSize_def vfsmirrorLock_def vfsmirrorUnlock_def
      vfsmirrorCheckReservedLock_def vfsmirrorSectorSize_def vfsmirrorDeviceCharacteristics_def
      vfsmirrorShmLock_def vfsmirrorShmMap_def vfsmirrorShmUnmap_def
    by (intro conjI call_method_primary_only)
qed

text \<open>On a handle with both files open, a read and a lock leave one event each, on file 1.\<close>

theorem read_side_uses_primary_only_witness:
  "map_sum id snd (vfsmirrorRead (demo_env [] []) file_demo 0 4096 0 sys_init)
     = Inr \<lparr>trace = [EvIo Primary 1 (XRead 0 4096 0)], os = 1\<rparr>
   \<and> map_sum id snd (vfsmirrorLock (demo_env [] []) file_demo 1 sys_init)
     = Inr \<lparr>trace = [EvIo Primary 1 (XLock 1)], os = 1\<rparr>"
  using read_side_uses_primary_only[of file_demo 0 4096 0 sys_init "demo_env [] []" 0 1]
  by (simp add: primary_only_def file_demo_def sys_init_def vfsmirrorRead_def vfsmirrorLock_def
      call_method_def demo_env_def)

lemma call_both_no_replica:
  assumes "pReal0 p = Some h0" and "pReal1 p = None" and "xMethod E h0 req (os s) = (rc, w1)"
  shows "call_both K E p req s
           = Inr (rc, SQLITE_OK K, s\<lparr>trace := trace s @ [EvIo Primary h0 req], os := w1\<rparr>)"
  using assms by (simp add: call_both_def call_method_def)

lemma call_both_replica:
  assumes "pReal0 p = Some h0" and "pReal1 p = Some (Some h1)"
    and "xMethod E h0 req (os s) = (rc, w1)" and "xMethod E h1 req w1 = (rc1, w2)"
  shows "call_both K E p req s
           = Inr (rc, rc1, s\<lparr>trace := trace s @ [EvIo Primary h0 req, EvIo Replica h1 req],
                                os := w2\<rparr>)"
  using assms by (simp add: call_both_def call_method_def)

lemma RETURN_CODE_OK_right: "RETURN_CODE K rc (SQLITE_OK K) = rc"
  by (simp add: RETURN_CODE_def)

text \<open>
  On a handle whose replica slot is null, or holds a file that opened,
  \<^verbatim>\<open>vfsmirrorClose\<close> closes the primary file first and then the replica, if there is
  one, and returns the two codes reconciled (the primary's own code when there is no
  replica). The method table is freed and \<^verbatim>\<open>base.pMethods\<close> cleared exactly when the
  primary's close returned \<^verbatim>\<open>SQLITE_OK\<close>, whatever the replica's close returned.
\<close>

theorem vfsmirrorClose_both_files:
  assumes "pReal0 p = Some h0" and "base_pMethods p = Some (a, tbl)"
    and "xMethod E h0 XClose (os s) = (rc, w1)" and "xMethod E h1 XClose w1 = (rc1, w2)"
  shows "(pReal1 p = None \<longrightarrow>
            vfsmirrorClose K E p s =
              (if rc = SQLITE_OK K
               then Inr (rc, p\<lparr>base_pMethods := None\<rparr>,
                         s\<lparr>trace := trace s @ [EvIo Primary h0 XClose, EvFree a],
                           os := sqlite3_free E a w1\<rparr>)
               else Inr (rc, p, s\<lparr>trace := trace s @ [EvIo Primary h0 XClose], os := w1\<rparr>)))
       \<and> (pReal1 p = Some (Some h1) \<longrightarrow>
            vfsmirrorClose K E p s =
              (if rc = SQLITE_OK K
               then Inr (RETURN_CODE K rc rc1, p\<lparr>base_pMethods := None\<rparr>,
                         s\<lparr>trace := trace s @ [EvIo Primary h0 XClose, EvIo Replica h1 XClose, EvFree a],
                           os := sqlite3_free E a w2\<rparr>)
               else Inr (RETURN_CODE K rc rc1, p,
                         s\<lparr>trace := trace s @ [EvIo Primary h0 XClose, EvIo Replica h1 XClose],
                           os := w2\<rparr>)))"
proof (intro conjI impI)
  assume "pReal1 p = None"
  then show "vfsmirrorClose K E p s =
      (if rc = SQLITE_OK K
       then Inr (rc, p\<lparr>base_pMethods := None\<rparr>,
                 s\<lparr>trace := trace s @ [EvIo Primary h0 XClose, EvFree a],
                   os := sqlite3_free E a w1\<rparr>)
       else Inr (rc, p, s\<lparr>trace := trace s @ [EvIo Primary h0 XClose], os := w1\<rparr>))"
    using assms(1,2) call_both_no_replica[OF assms(1) _ assms(3), of K]
    by (simp add: vfsmirrorClose_def call_free_def RETURN_CODE_OK_right)
next
  assume "pReal1 p = Some (Some h1)"
  then show "vfsmirrorClose K E p s =
      (if rc = SQLITE_OK K
       then Inr (RETURN_CODE K rc rc1, p\<lparr>base_pMethods := None\<rparr>,
                 s\<lparr>trace := trace s @ [EvIo Primary h0 XClose, EvIo Replica h1 XClose, EvFree a],
                   os := sqlite3_free E a w2\<rparr>)
       else Inr (RETURN_CODE K rc rc1, p,
                 s\<lparr>trace := trace s @ [EvIo Primary h0 XClose, EvIo Replica h1 XClose],
                   os := w2\<rparr>))"
    using assms(2) call_both_replica[OF assms(1) _ assms(3,4), of K]
    by (simp add: vfsmirrorClose_def call_free_def)
qed

text \<open>
  The replica's close fails and the primary's succeeds: 10 is returned and the table at
  address 7 is freed. The primary's close fails: 10 is returned and the table stays.
  No replica: the primary's code is returned.
\<close>

theorem vfsmirrorClose_both_files_witness:
  "vfsmirrorClose sqlite3_std (demo_env [] [2]) file_demo sys_init
     = Inr (10, file_demo\<lparr>base_pMethods := None\<rparr>,
            \<lparr>trace = [EvIo Primary 1 XClose, EvIo Replica 2 XClose, EvFree 7], os = 3\<rparr>)
   \<and> vfsmirrorClose sqlite3_std (demo_env [] [1]) file_demo sys_init
     = Inr (10, file_demo,
            \<lparr>trace = [EvIo Primary 1 XClose, EvIo Replica 2 XClose], os = 2\<rparr>)
   \<and> vfsmirrorClose sqlite3_std (demo_env [] []) (file_demo\<lparr>pReal1 := None\<rparr>) sys_init
     = Inr (0, file_demo\<lparr>pReal1 := None, base_pMethods := None\<rparr>,
            \<lparr>trace = [EvIo Primary 1 XClose, EvFree 7], os = 2\<rparr>)"
proof -
  let ?tbl = "\<lparr>iVersion = 2, xShmMap = True, xShmLock = True, xShmBarrier = True, xShmUnmap = True\<rparr>"
  have p0: "pReal0 file_demo = Some 1" and pm: "base_pMethods file_demo = Some (7, ?tbl)"
    and p1: "pReal1 file_demo = Some (Some 2)"
    by (simp_all add: file_demo_def)
  have a1: "xMethod (demo_env [] [2]) 1 XClose (os sys_init) = (0, 1)"
    and a2: "xMethod (demo_env [] [2]) 2 XClose 1 = (10, 2)"
    and b1: "xMethod (demo_env [] [1]) 1 XClose (os sys_init) = (10, 1)"
    and b2: "xMethod (demo_env [] [1]) 2 XClose 1 = (0, 2)"
    and c1: "xMethod (demo_env [] []) 1 XClose (os sys_init) = (0, 1)"
    and c2: "xMethod (demo_env [] []) 2 XClose 1 = (0, 2)"
    by (simp_all add: demo_env_def sys_init_def)
  have q0: "pReal0 (file_demo\<lparr>pReal1 := None\<rparr>) = Some 1"
    and qm: "base_pMethods (file_demo\<lparr>pReal1 := None\<rparr>) = Some (7, ?tbl)"
    by (simp_all add: file_demo_def)
  show ?thesis
    using vfsmirrorClose_both_files[OF p0 pm a1 a2, of sqlite3_std]
      vfsmirrorClose_both_files[OF p0 pm b1 b2, of sqlite3_std]
      vfsmirrorClose_both_files[OF q0 qm c1 c2, of sqlite3_std]
    by (simp add: p1 sqlite3_std_def RETURN_CODE_def sys_init_def demo_env_def)
qed

section \<open>Deleting a file: properties\<close>


lemma demo_dir: "cstr (zSlaveDir globals_demo) = Inr ''D:/m''"
  by (simp add: cstr_def globals_demo_def NUL_def)

lemma demo_replica_path:
  "vfsmirrorReplicaPath globals_demo (Some ''/a/b/test.db'') (NAME_MAX sqlite3_std)
     = Inr (''D:/m'' @ [backslash] @ ''test.db'')"
  by (simp add: vfsmirrorReplicaPath_def demo_dir strncpy_def strncat_def sqlite3_std_def
      fileTail_def fileTail_index_def strlen_minus_1_def fileTail_loop.simps char_at_def
      slash_def backslash_def)


section \<open>Opening a file: properties\<close>

lemma replica_opens_append [simp]:
  "replica_opens (xs @ ys) = replica_opens xs @ replica_opens ys"
  by (simp add: replica_opens_def)

lemma replica_opens_Nil [simp]: "replica_opens [] = []"
  by (simp add: replica_opens_def)

lemma new_events_append:
  "trace s' = trace s @ evs \<Longrightarrow> new_events s s' = evs"
  by (simp add: new_events_def)

lemma replica_retry_trace:
  "replica_retry K E path flags pOutFlags n r s = (r', s') \<Longrightarrow>
   \<exists>evs. trace s' = trace s @ evs \<and> length (replica_opens evs) \<le> n
         \<and> (0 < n \<longrightarrow> replica_opens evs \<noteq> [])"
proof (induction n arbitrary: r s)
  case 0
  then show ?case by simp
next
  case (Suc n)
  obtain r1 s1 where c: "call_xOpen E Replica (Some path) flags pOutFlags s = (r1, s1)"
    by (cases "call_xOpen E Replica (Some path) flags pOutFlags s")
  then have t1: "trace s1 = trace s @ [EvOpen Replica (Some path) flags pOutFlags]"
    by (auto simp: call_xOpen_def split: prod.splits)
  show ?case
  proof (cases "fst r1 \<noteq> SQLITE_OK K")
    case True
    with Suc.prems c
    have "replica_retry K E path flags pOutFlags n r1 (call_sleep E 5 s1) = (r', s')"
      by simp
    from Suc.IH[OF this] obtain evs where
      e: "trace s' = trace (call_sleep E 5 s1) @ evs" "length (replica_opens evs) \<le> n"
      by blast
    have "trace s' = trace s @ ([EvOpen Replica (Some path) flags pOutFlags, EvSleep 5] @ evs)"
      using e(1) t1 by (simp add: call_sleep_def)
    moreover have "length (replica_opens ([EvOpen Replica (Some path) flags pOutFlags, EvSleep 5] @ evs)) \<le> Suc n"
      using e(2) by (simp add: replica_opens_def)
    moreover have "replica_opens ([EvOpen Replica (Some path) flags pOutFlags, EvSleep 5] @ evs) \<noteq> []"
      by (simp add: replica_opens_def)
    ultimately show ?thesis by blast
  next
    case False
    with Suc.prems c have "s' = s1" by simp
    then have "trace s' = trace s @ [EvOpen Replica (Some path) flags pOutFlags]"
      using t1 by simp
    moreover have "replica_opens [EvOpen Replica (Some path) flags pOutFlags]
        = [EvOpen Replica (Some path) flags pOutFlags]"
      by (simp add: replica_opens_def)
    ultimately show ?thesis by (metis One_nat_def le_add1 length_Cons list.size(3) not_Cons_self2 plus_1_eq_Suc)
  qed
qed

text \<open>What one run of the retry loop does, by the codes its attempts return.\<close>

lemma replica_retry_attempts:
  "replica_retry K E path flags pOutFlags n r0 s = ((rc1, f1), s') \<Longrightarrow>
   \<exists>evs. trace s' = trace s @ evs
     \<and> length (replica_opens evs) = length (replica_attempts K E path flags pOutFlags n s)
     \<and> length (replica_attempts K E path flags pOutFlags n s) \<le> n
     \<and> list_all (\<lambda>c. c \<noteq> SQLITE_OK K) (butlast (replica_attempts K E path flags pOutFlags n s))
     \<and> (0 < n \<longrightarrow> replica_attempts K E path flags pOutFlags n s \<noteq> []
                  \<and> rc1 = last (replica_attempts K E path flags pOutFlags n s))
     \<and> (list_all (\<lambda>c. c \<noteq> SQLITE_OK K) (replica_attempts K E path flags pOutFlags n s)
            \<longrightarrow> length (replica_attempts K E path flags pOutFlags n s) = n)"
proof (induction n arbitrary: r0 s)
  case 0
  then show ?case by simp
next
  case (Suc n)
  obtain r1 s1 where c: "call_xOpen E Replica (Some path) flags pOutFlags s = (r1, s1)"
    by (cases "call_xOpen E Replica (Some path) flags pOutFlags s")
  then have t1: "trace s1 = trace s @ [EvOpen Replica (Some path) flags pOutFlags]"
    by (auto simp: call_xOpen_def split: prod.splits)
  show ?case
  proof (cases "fst r1 \<noteq> SQLITE_OK K")
    case True
    let ?s = "call_sleep E 5 s1"
    let ?rest = "replica_attempts K E path flags pOutFlags n ?s"
    have at: "replica_attempts K E path flags pOutFlags (Suc n) s = fst r1 # ?rest"
      using c True by simp
    from Suc.prems c True
    have rec: "replica_retry K E path flags pOutFlags n r1 ?s = ((rc1, f1), s')"
      by simp
    from Suc.IH[OF rec] obtain evs where
      e: "trace s' = trace ?s @ evs"
         "length (replica_opens evs) = length ?rest"
         "length ?rest \<le> n"
         "list_all (\<lambda>c. c \<noteq> SQLITE_OK K) (butlast ?rest)"
         "0 < n \<longrightarrow> ?rest \<noteq> [] \<and> rc1 = last ?rest"
         "list_all (\<lambda>c. c \<noteq> SQLITE_OK K) ?rest \<longrightarrow> length ?rest = n"
      by blast
    have n0: "n = 0 \<Longrightarrow> ?rest = [] \<and> rc1 = fst r1"
      using rec by auto
    have tr: "trace s' = trace s @ ([EvOpen Replica (Some path) flags pOutFlags, EvSleep 5] @ evs)"
      using e(1) t1 by (simp add: call_sleep_def)
    have len: "length (replica_opens ([EvOpen Replica (Some path) flags pOutFlags, EvSleep 5] @ evs))
        = length (fst r1 # ?rest)"
      using e(2) by (simp add: replica_opens_def)
    have bl: "list_all (\<lambda>c. c \<noteq> SQLITE_OK K) (butlast (fst r1 # ?rest))"
      using e(4) True by simp
    have la: "rc1 = last (fst r1 # ?rest)"
      using e(5) n0 by (cases n) auto
    have al: "list_all (\<lambda>c. c \<noteq> SQLITE_OK K) (fst r1 # ?rest) \<longrightarrow> length (fst r1 # ?rest) = Suc n"
      using e(6) by simp
    show ?thesis
      unfolding at using tr len bl la al e(3) by (intro exI[of _ "[EvOpen Replica (Some path) flags pOutFlags, EvSleep 5] @ evs"]) simp
  next
    case False
    have at: "replica_attempts K E path flags pOutFlags (Suc n) s = [fst r1]"
      using c False by simp
    from Suc.prems c False have "s' = s1" and "rc1 = fst r1" by auto
    then show ?thesis
      unfolding at using t1 False
      by (intro exI[of _ "[EvOpen Replica (Some path) flags pOutFlags]"]) (simp add: replica_opens_def)
  qed
qed

lemma install_methods_trace:
  assumes "install_methods E p s = Inr (p2, s2)"
  shows "\<exists>evs. trace s2 = trace s @ evs \<and> replica_opens evs = []"
    and "zFName p2 = zFName p" and "pReal0 p2 = pReal0 p"
  using assms
  by (auto simp: install_methods_def call_malloc_def replica_opens_def
      split: option.splits prod.splits)


lemma install_methods_state:
  "map_sum id snd (install_methods E (p\<lparr>zFName := t, pReal0 := f\<rparr>) s)
     = map_sum id snd (install_methods E (p\<lparr>pReal0 := f\<rparr>) s)"
  by (simp add: install_methods_def split: option.splits prod.splits)

lemma vfsmirrorOpen_steps:
  assumes res: "vfsmirrorOpen K E g zName p flags pOutFlags s = Inr (r, p', s')"
    and xo: "xOpen E zName flags pOutFlags (os s) = ((rc, f0), w1)"
  obtains (mirrored) tail s2 evs path rc1 f1 where
      "zName \<noteq> None" and "rc = SQLITE_OK K"
      and "flags AND (SQLITE_OPEN_MAIN_DB K OR SQLITE_OPEN_MAIN_JOURNAL K) \<noteq> 0"
      and "trace s2 = trace s @ EvOpen Primary zName flags pOutFlags # evs"
      and "replica_opens evs = []"
      and "fileTail zName = Inr tail"
      and "vfsmirrorReplicaPath g tail (NAME_MAX K) = Inr path"
      and "replica_retry K E path flags pOutFlags 10 (SQLITE_OK K, None) s2 = ((rc1, f1), s')"
      and "r = RETURN_CODE K rc rc1" and "pReal1 p' = Some f1" and "zFname2 p' = path"
      and "s2 = before_replica E zName p flags pOutFlags s"
    | (single) evs where
      "\<not> (zName \<noteq> None \<and> rc = SQLITE_OK K
          \<and> flags AND (SQLITE_OPEN_MAIN_DB K OR SQLITE_OPEN_MAIN_JOURNAL K) \<noteq> 0)"
      and "trace s' = trace s @ EvOpen Primary zName flags pOutFlags # evs"
      and "replica_opens evs = []"
      and "r = rc" and "pReal1 p' = None"
proof -
  let ?ft = "case zName of None \<Rightarrow> Inr (Some ''<temp>'') | Some z \<Rightarrow> fileTail (Some z)"
  obtain tail where ft: "?ft = Inr tail"
    using res by (cases ?ft) (simp_all add: vfsmirrorOpen_def)
  let ?s1 = "s\<lparr>trace := trace s @ [EvOpen Primary zName flags pOutFlags], os := w1\<rparr>"
  have c1: "call_xOpen E Primary zName flags pOutFlags s = ((rc, f0), ?s1)"
    using xo by (simp add: call_xOpen_def)
  let ?p1 = "p\<lparr>zFName := tail, pReal0 := f0\<rparr>"
  obtain p2 s2 where im: "install_methods E ?p1 ?s1 = Inr (p2, s2)"
    using res ft c1 by (cases "install_methods E ?p1 ?s1") (auto simp: vfsmirrorOpen_def)
  from install_methods_trace[OF im] obtain evs where
    t2: "trace s2 = trace ?s1 @ evs" and ro: "replica_opens evs = []" and zf: "zFName p2 = tail"
    by auto
  have t2': "trace s2 = trace s @ EvOpen Primary zName flags pOutFlags # evs"
    using t2 by simp
  show thesis
  proof (cases "zName \<noteq> None \<and> rc = SQLITE_OK K
          \<and> flags AND (SQLITE_OPEN_MAIN_DB K OR SQLITE_OPEN_MAIN_JOURNAL K) \<noteq> 0")
    case True
    then obtain z where z: "zName = Some z" by auto
    have ftz: "fileTail zName = Inr tail"
      using ft z by simp
    obtain path where rp: "vfsmirrorReplicaPath g tail (NAME_MAX K) = Inr path"
      using res ft c1 im True zf
      by (cases "vfsmirrorReplicaPath g tail (NAME_MAX K)") (auto simp: vfsmirrorOpen_def)
    obtain rc1 f1 s3 where
      rr: "replica_retry K E path flags pOutFlags 10 (SQLITE_OK K, None) s2 = ((rc1, f1), s3)"
      by (metis surj_pair)
    have "r = RETURN_CODE K rc rc1" and "p' = p2\<lparr>zFname2 := path, pReal1 := Some f1\<rparr>" and "s' = s3"
      using res ft c1 im True rp rr zf by (auto simp: vfsmirrorOpen_def)
    moreover have "s2 = before_replica E zName p flags pOutFlags s"
    proof -
      have "map_sum id snd (install_methods E ?p1 ?s1) = Inr s2"
        using im by simp
      then have "map_sum id snd (install_methods E (p\<lparr>pReal0 := f0\<rparr>) ?s1) = Inr s2"
        by (simp only: install_methods_state)
      then show ?thesis
        using c1 by (auto simp: before_replica_def split: sum.splits)
    qed
    ultimately show ?thesis
      using mirrored[OF _ _ _ t2' ro ftz rp, of rc1 f1] True rr by simp
  next
    case False
    have "r = RETURN_CODE K rc (SQLITE_OK K)" and "p' = p2\<lparr>pReal1 := None\<rparr>" and "s' = s2"
      using res ft c1 im False by (auto simp: vfsmirrorOpen_def)
    then show ?thesis
      using single[OF False _ ro] t2' by (simp add: RETURN_CODE_def)
  qed
qed



text \<open>
  Claim C1, as the code has it. When the primary file opened and the request is one that
  is mirrored, \<open>codes\<close> being the codes the replica opens of the run return: there is
  one replica open for each code, at least one and at most 10; every attempt but the
  last failed; and \<^verbatim>\<open>vfsmirrorOpen\<close> returns the code of the last attempt, since
  \<^verbatim>\<open>RETURN_CODE(rc, rc1)\<close> is \<^verbatim>\<open>rc1\<close> when \<^verbatim>\<open>rc\<close> is \<^verbatim>\<open>SQLITE_OK\<close>. So when all
  attempts of the run fail there are exactly 10 of them, and what \<^verbatim>\<open>vfsmirrorOpen\<close>
  returns is the code of the 10th, which is not \<^verbatim>\<open>SQLITE_OK\<close>.
\<close>

theorem replica_open_retries:
  assumes "vfsmirrorOpen K E g zName p flags pOutFlags s = Inr (r, p', s')"
    and "zName \<noteq> None"
    and "fst (fst (xOpen E zName flags pOutFlags (os s))) = SQLITE_OK K"
    and "flags AND (SQLITE_OPEN_MAIN_DB K OR SQLITE_OPEN_MAIN_JOURNAL K) \<noteq> 0"
    and "codes = replica_attempts K E (zFname2 p') flags pOutFlags 10
                   (before_replica E zName p flags pOutFlags s)"
  shows "length (replica_opens (new_events s s')) = length codes
       \<and> 1 \<le> length codes \<and> length codes \<le> 10
       \<and> list_all (\<lambda>c. c \<noteq> SQLITE_OK K) (butlast codes)
       \<and> r = last codes
       \<and> (list_all (\<lambda>c. c \<noteq> SQLITE_OK K) codes \<longrightarrow> length codes = 10 \<and> r \<noteq> SQLITE_OK K)"
proof -
  obtain rc f0 w1 where xo: "xOpen E zName flags pOutFlags (os s) = ((rc, f0), w1)"
    by (metis surj_pair)
  from assms(1) xo show ?thesis
  proof (cases rule: vfsmirrorOpen_steps)
    case (mirrored tail s2 evs path rc1 f1)
    have cd: "codes = replica_attempts K E path flags pOutFlags 10 s2"
      using assms(5) mirrored(11,12) by simp
    from replica_retry_attempts[OF mirrored(8)] obtain evs' where
      e: "trace s' = trace s2 @ evs'"
         "length (replica_opens evs') = length codes"
         "length codes \<le> 10"
         "list_all (\<lambda>c. c \<noteq> SQLITE_OK K) (butlast codes)"
         "codes \<noteq> []" "rc1 = last codes"
         "list_all (\<lambda>c. c \<noteq> SQLITE_OK K) codes \<longrightarrow> length codes = 10"
      unfolding cd by auto
    have "new_events s s' = EvOpen Primary zName flags pOutFlags # evs @ evs'"
      using e(1) mirrored(4) by (intro new_events_append) simp
    then have n: "length (replica_opens (new_events s s')) = length codes"
      using mirrored(5) e(2) by (simp add: replica_opens_def)
    have r: "r = last codes"
      using e(6) mirrored(2,9) by (simp add: RETURN_CODE_def)
    have one: "1 \<le> length codes"
      using e(5) by (cases codes) auto
    have "last codes \<noteq> SQLITE_OK K" if "list_all (\<lambda>c. c \<noteq> SQLITE_OK K) codes"
      using that e(5) by (auto simp: list_all_iff)
    then show ?thesis
      using n r one e(3,4,7) by auto
  next
    case (single evs)
    then show ?thesis
      using assms(2,3,4) xo by simp
  qed
qed

subsection \<open>Concrete runs of \<^verbatim>\<open>vfsmirrorOpen\<close>\<close>

lemma demo_retry_fails:
  "replica_retry sqlite3_std (demo_env [demo_db] []) demo_replica flags pOutFlags (Suc n) r
     \<lparr>trace = tr, os = w\<rparr>
   = ((14, None),
      \<lparr>trace = tr @ concat (replicate (Suc n) [EvOpen Replica (Some demo_replica) flags pOutFlags, EvSleep 5]),
        os = w + Suc n\<rparr>)"
proof (induction n arbitrary: r tr w)
  case 0
  show ?case
    by (simp add: call_xOpen_def call_sleep_def demo_env_def sqlite3_std_def demo_db_def
        demo_replica_def)
next
  case (Suc n)
  have step: "replica_retry sqlite3_std (demo_env [demo_db] []) demo_replica flags pOutFlags
       (Suc (Suc n)) r \<lparr>trace = tr, os = w\<rparr>
     = replica_retry sqlite3_std (demo_env [demo_db] []) demo_replica flags pOutFlags (Suc n)
         (14, None)
         \<lparr>trace = tr @ [EvOpen Replica (Some demo_replica) flags pOutFlags, EvSleep 5], os = Suc w\<rparr>"
    by (subst replica_retry.simps(2))
       (simp add: call_xOpen_def call_sleep_def demo_env_def sqlite3_std_def demo_db_def
        demo_replica_def del: replica_retry.simps)
  show ?case
    unfolding step Suc.IH by simp
qed


lemma demo_tail: "fileTail (Some demo_db) = Inr (Some ''test.db'')"
  by (simp add: demo_db_def fileTail_def fileTail_index_def strlen_minus_1_def
      fileTail_loop.simps char_at_def slash_def backslash_def)

lemma demo_tail_tail: "fileTail (Some ''test.db'') = Inr (Some ''test.db'')"
  by (simp add: fileTail_def fileTail_index_def strlen_minus_1_def
      fileTail_loop.simps char_at_def slash_def backslash_def)

lemma demo_replica_path_of_tail:
  "vfsmirrorReplicaPath globals_demo (Some ''test.db'') (NAME_MAX sqlite3_std) = Inr demo_replica"
  by (simp add: vfsmirrorReplicaPath_def demo_dir demo_tail_tail strncpy_def strncat_def
      sqlite3_std_def demo_replica_def)

lemma demo_open_replica_fails:
  "vfsmirrorOpen sqlite3_std (demo_env [demo_db] []) globals_demo (Some demo_db)
     file_init 0x106 None sys_init
   = Inr (14,
          \<lparr>base_pMethods = Some (1, demo_methods), zFName = Some ''test.db'',
            zFname2 = demo_replica, pReal0 = Some 0, pReal1 = Some None\<rparr>,
          \<lparr>trace = EvOpen Primary (Some demo_db) 0x106 None # EvMalloc #
                    concat (replicate 10 [EvOpen Replica (Some demo_replica) 0x106 None, EvSleep 5]),
            os = 12\<rparr>)"
proof -
  have p: "call_xOpen (demo_env [demo_db] []) Primary (Some demo_db) 0x106 None sys_init
      = ((0, Some 0), \<lparr>trace = [EvOpen Primary (Some demo_db) 0x106 None], os = Suc 0\<rparr>)"
    by (simp add: call_xOpen_def demo_env_def sys_init_def)
  have i: "install_methods (demo_env [demo_db] [])
        (file_init\<lparr>zFName := Some ''test.db'', pReal0 := Some 0\<rparr>)
        \<lparr>trace = [EvOpen Primary (Some demo_db) 0x106 None], os = Suc 0\<rparr>
      = Inr (\<lparr>base_pMethods = Some (Suc 0, demo_methods), zFName = Some ''test.db'',
               zFname2 = [], pReal0 = Some 0, pReal1 = None\<rparr>,
             \<lparr>trace = [EvOpen Primary (Some demo_db) 0x106 None, EvMalloc], os = 2\<rparr>)"
    by (simp add: install_methods_def call_malloc_def demo_env_def file_init_def demo_methods_def)
  have r: "replica_retry sqlite3_std (demo_env [demo_db] []) demo_replica 0x106 None 10
        (SQLITE_OK sqlite3_std, None)
        \<lparr>trace = [EvOpen Primary (Some demo_db) 0x106 None, EvMalloc], os = 2\<rparr>
      = ((14, None),
         \<lparr>trace = [EvOpen Primary (Some demo_db) 0x106 None, EvMalloc] @
                   concat (replicate 10 [EvOpen Replica (Some demo_replica) 0x106 None, EvSleep 5]),
           os = 12\<rparr>)"
    using demo_retry_fails[of "0x106" None 9] by simp
  have k: "SQLITE_OK sqlite3_std = 0"
    "0x106 AND (SQLITE_OPEN_MAIN_DB sqlite3_std OR SQLITE_OPEN_MAIN_JOURNAL sqlite3_std) \<noteq> (0::int)"
    "RETURN_CODE sqlite3_std 0 14 = 14"
    by (simp_all add: sqlite3_std_def RETURN_CODE_def)
  show ?thesis
    unfolding vfsmirrorOpen_def
    by (simp add: demo_tail p i demo_replica_path_of_tail r[unfolded k(1)] k)
qed


lemma demo_open_mirrored:
  "vfsmirrorOpen sqlite3_std (demo_env [demo_db, demo_replica] []) globals_demo (Some demo_db)
     file_init 0x106 None sys_init
   = Inr (0,
          \<lparr>base_pMethods = Some (1, demo_methods), zFName = Some ''test.db'',
            zFname2 = demo_replica, pReal0 = Some 0, pReal1 = Some (Some 2)\<rparr>,
          \<lparr>trace = [EvOpen Primary (Some demo_db) 0x106 None, EvMalloc,
                    EvOpen Replica (Some demo_replica) 0x106 None],
            os = 3\<rparr>)"
  by code_simp




text \<open>
  Claim C1 as stated fails: the primary file opens, the replica path never does. After
  the 10th attempt \<^verbatim>\<open>vfsmirrorOpen\<close> returns 14 (\<^verbatim>\<open>SQLITE_CANTOPEN\<close>), not
  \<^verbatim>\<open>SQLITE_OK\<close>, and the replica slot is not null: it points to the file object that
  never opened.
\<close>

theorem replica_open_retries_counterexample:
  "vfsmirrorOpen sqlite3_std (demo_env [demo_db] []) globals_demo (Some demo_db)
     file_init 0x106 None sys_init
   = Inr (14,
          \<lparr>base_pMethods = Some (1, demo_methods), zFName = Some ''test.db'',
            zFname2 = demo_replica, pReal0 = Some 0, pReal1 = Some None\<rparr>,
          \<lparr>trace = EvOpen Primary (Some demo_db) 0x106 None # EvMalloc #
                    concat (replicate 10 [EvOpen Replica (Some demo_replica) 0x106 None, EvSleep 5]),
            os = 12\<rparr>)
   \<and> 14 \<noteq> SQLITE_OK sqlite3_std
   \<and> xOpen (demo_env [demo_db] []) (Some demo_db) 0x106 None (os sys_init)
       = ((SQLITE_OK sqlite3_std, Some 0), 1)"
proof -
  have "14 \<noteq> SQLITE_OK sqlite3_std"
    by (simp add: sqlite3_std_def)
  moreover have "xOpen (demo_env [demo_db] []) (Some demo_db) 0x106 None (os sys_init)
       = ((SQLITE_OK sqlite3_std, Some 0), 1)"
    by (simp add: sqlite3_std_def demo_env_def sys_init_def)
  ultimately show ?thesis
    using demo_open_replica_fails by simp
qed

lemma demo_attempts_fail:
  "replica_attempts sqlite3_std (demo_env [demo_db] []) demo_replica flags pOutFlags n
     \<lparr>trace = tr, os = w\<rparr> = replicate n 14"
proof (induction n arbitrary: tr w)
  case 0
  show ?case by simp
next
  case (Suc n)
  have "replica_attempts sqlite3_std (demo_env [demo_db] []) demo_replica flags pOutFlags (Suc n)
          \<lparr>trace = tr, os = w\<rparr>
        = 14 # replica_attempts sqlite3_std (demo_env [demo_db] []) demo_replica flags pOutFlags n
                 \<lparr>trace = tr @ [EvOpen Replica (Some demo_replica) flags pOutFlags, EvSleep 5],
                   os = Suc w\<rparr>"
    by (subst replica_attempts.simps(2))
       (simp add: call_xOpen_def call_sleep_def demo_env_def sqlite3_std_def demo_db_def
        demo_replica_def del: replica_attempts.simps)
  then show ?case
    using Suc.IH by simp
qed

lemma demo_before_replica:
  "before_replica (demo_env [demo_db] []) (Some demo_db) file_init 0x106 None sys_init
     = \<lparr>trace = [EvOpen Primary (Some demo_db) 0x106 None, EvMalloc], os = 2\<rparr>"
  by (simp add: before_replica_def call_xOpen_def install_methods_def call_malloc_def
      demo_env_def sys_init_def file_init_def)

theorem replica_open_retries_witness:
  "replica_attempts sqlite3_std (demo_env [demo_db] []) demo_replica 0x106 None 10
       (before_replica (demo_env [demo_db] []) (Some demo_db) file_init 0x106 None sys_init)
     = replicate 10 14
   \<and> length (replica_opens (new_events sys_init
       \<lparr>trace = EvOpen Primary (Some demo_db) 0x106 None # EvMalloc #
                    concat (replicate 10 [EvOpen Replica (Some demo_replica) 0x106 None, EvSleep 5]),
         os = 12\<rparr>)) = 10
   \<and> (14::int) = last (replicate 10 14)
   \<and> 14 \<noteq> SQLITE_OK sqlite3_std"
proof -
  let ?E = "demo_env [demo_db] []"
  have n: "Some demo_db \<noteq> None" by simp
  have ok: "fst (fst (xOpen ?E (Some demo_db) 0x106 None (os sys_init))) = SQLITE_OK sqlite3_std"
    by (simp add: sqlite3_std_def demo_env_def)
  have el: "0x106 AND (SQLITE_OPEN_MAIN_DB sqlite3_std OR SQLITE_OPEN_MAIN_JOURNAL sqlite3_std) \<noteq> (0::int)"
    by (simp add: sqlite3_std_def)
  have cd: "replicate 10 (14::int) = replica_attempts sqlite3_std ?E
      (zFname2 \<lparr>base_pMethods = Some (1, demo_methods), zFName = Some ''test.db'',
            zFname2 = demo_replica, pReal0 = Some (0::nat), pReal1 = Some None\<rparr>) 0x106 None 10
      (before_replica ?E (Some demo_db) file_init 0x106 None sys_init)"
    by (simp add: demo_before_replica demo_attempts_fail)
  have al: "list_all (\<lambda>c. c \<noteq> SQLITE_OK sqlite3_std) (replicate 10 (14::int))"
    by (simp add: sqlite3_std_def list_all_iff)
  show ?thesis
    using replica_open_retries[OF demo_open_replica_fails n ok el cd] al cd
    by simp
qed

section \<open>Closing a handle whose replica never opened\<close>

text \<open>
  Claim C6 says that \<^verbatim>\<open>vfsmirrorClose\<close> returns the two codes reconciled and frees the
  method table exactly when the primary's close succeeded. On the handle that
  \<^verbatim>\<open>vfsmirrorOpen\<close> leaves when the primary file opened and the replica never did, the
  replica slot is not null and points to a file object whose \<^verbatim>\<open>pMethods\<close> is null:
  \<^verbatim>\<open>vfsmirrorClose\<close> closes the primary file and then dereferences that null pointer.
  It returns no code and frees nothing.
\<close>

theorem vfsmirrorClose_unopened_replica:
  "vfsmirrorClose K E (p\<lparr>pReal0 := Some h0, pReal1 := Some None\<rparr>) s = Inl NullPointer
   \<and> vfsmirrorOpen sqlite3_std (demo_env [demo_db] []) globals_demo (Some demo_db)
        file_init 0x106 None sys_init
     = Inr (14,
          \<lparr>base_pMethods = Some (1, demo_methods), zFName = Some ''test.db'',
            zFname2 = demo_replica, pReal0 = Some 0, pReal1 = Some None\<rparr>,
          \<lparr>trace = EvOpen Primary (Some demo_db) 0x106 None # EvMalloc #
                    concat (replicate 10 [EvOpen Replica (Some demo_replica) 0x106 None, EvSleep 5]),
            os = 12\<rparr>)
   \<and> vfsmirrorClose sqlite3_std (demo_env [demo_db] [])
        \<lparr>base_pMethods = Some (1, demo_methods), zFName = Some ''test.db'',
          zFname2 = demo_replica, pReal0 = Some 0, pReal1 = Some None\<rparr>
        \<lparr>trace = EvOpen Primary (Some demo_db) 0x106 None # EvMalloc #
                  concat (replicate 10 [EvOpen Replica (Some demo_replica) 0x106 None, EvSleep 5]),
          os = 12\<rparr>
     = Inl NullPointer"
proof -
  have g: "\<And>q t. pReal0 q = Some h \<Longrightarrow> pReal1 q = Some None \<Longrightarrow>
      vfsmirrorClose K' E' q t = Inl NullPointer" for h K' E'
    by (simp add: vfsmirrorClose_def call_both_def call_method_def split: prod.splits)
  show ?thesis
    using demo_open_replica_fails by (simp add: g)
qed

section \<open>The replica path: properties\<close>

lemma base_name_snoc:
  "\<not> is_sep c \<Longrightarrow> base_name (xs @ [c]) = base_name xs @ [c]"
  by (simp add: base_name_def)

lemma base_name_no_sep: "list_all (\<lambda>c. \<not> is_sep c) (base_name z)"
  unfolding base_name_def list_all_iff
  by (auto dest: set_takeWhileD)

lemma fileTail_base_name:
  assumes "z \<noteq> []" and "length z < 2 ^ 31" and "\<not> is_sep (last z)"
  shows "fileTail (Some z) = Inr (Some (base_name z))"
proof -
  have "base_name (butlast z @ [last z]) = base_name (butlast z) @ [last z]"
    using assms(3) by (rule base_name_snoc)
  then show ?thesis
    using fileTail_nonempty[OF assms(1,2)] assms(1) by simp
qed

lemma base_name_idem: "base_name (base_name x) = base_name x"
  by (simp add: base_name_def)

lemma fileTail_Nil: "fileTail (Some []) = Inl (OutOfBounds (- 1))"
  by (simp add: fileTail_def fileTail_index_def strlen_minus_1_def fileTail_loop.simps)

lemma fileTail_idem:
  assumes "fileTail (Some z) = Inr (Some t)" and "length z < 2 ^ 31"
  shows "fileTail (Some t) = Inr (Some t)"
proof -
  have "z \<noteq> []"
    using assms(1) fileTail_Nil by auto
  then obtain xs c where z: "z = xs @ [c]"
    by (cases z rule: rev_cases) auto
  from fileTail_nonempty[of z] assms z
  have t: "t = base_name xs @ [c]" by simp
  have "length (base_name xs) \<le> length xs"
    using length_takeWhile_le[of "\<lambda>c. \<not> is_sep c" "rev xs"] by (simp add: base_name_def)
  then have "length t < 2 ^ 31"
    using assms(2) t z by simp
  from fileTail_nonempty[of t, OF _ this] t show ?thesis
    by (simp add: base_name_idem)
qed

lemma vfsmirrorReplicaPath_cong:
  "fileTail a = fileTail b \<Longrightarrow> vfsmirrorReplicaPath g a sz = vfsmirrorReplicaPath g b sz"
  unfolding vfsmirrorReplicaPath_def by (simp only:)

lemma replica_retry_events:
  "replica_retry K E path flags pOutFlags n r s = (r', s') \<Longrightarrow>
   \<exists>evs. trace s' = trace s @ evs
         \<and> list_all (\<lambda>e. e = EvOpen Replica (Some path) flags pOutFlags) (replica_opens evs)"
proof (induction n arbitrary: r s)
  case 0
  then show ?case by simp
next
  case (Suc n)
  obtain r1 s1 where c: "call_xOpen E Replica (Some path) flags pOutFlags s = (r1, s1)"
    by (cases "call_xOpen E Replica (Some path) flags pOutFlags s")
  then have t1: "trace s1 = trace s @ [EvOpen Replica (Some path) flags pOutFlags]"
    by (auto simp: call_xOpen_def split: prod.splits)
  show ?case
  proof (cases "fst r1 \<noteq> SQLITE_OK K")
    case True
    with Suc.prems c
    have "replica_retry K E path flags pOutFlags n r1 (call_sleep E 5 s1) = (r', s')"
      by simp
    from Suc.IH[OF this] obtain evs where
      e: "trace s' = trace (call_sleep E 5 s1) @ evs"
         "list_all (\<lambda>e. e = EvOpen Replica (Some path) flags pOutFlags) (replica_opens evs)"
      by blast
    have "trace s' = trace s @ ([EvOpen Replica (Some path) flags pOutFlags, EvSleep 5] @ evs)"
      using e(1) t1 by (simp add: call_sleep_def)
    moreover have "list_all (\<lambda>e. e = EvOpen Replica (Some path) flags pOutFlags)
        (replica_opens ([EvOpen Replica (Some path) flags pOutFlags, EvSleep 5] @ evs))"
      using e(2) by (simp add: replica_opens_def)
    ultimately show ?thesis by blast
  next
    case False
    with Suc.prems c have "s' = s1" by simp
    then have "trace s' = trace s @ [EvOpen Replica (Some path) flags pOutFlags]"
      using t1 by simp
    moreover have "list_all (\<lambda>e. e = EvOpen Replica (Some path) flags pOutFlags)
        (replica_opens [EvOpen Replica (Some path) flags pOutFlags])"
      by (simp add: replica_opens_def)
    ultimately show ?thesis by blast
  qed
qed

text \<open>
  The replica that \<^verbatim>\<open>vfsmirrorOpen\<close> opens: although the path is computed from the
  tail of the name (\<^verbatim>\<open>fileTail\<close> is applied twice), it is the replica path of the name
  itself, and every attempt passes the flags and the \<^verbatim>\<open>pOutFlags\<close> of the primary open.
\<close>

lemma vfsmirrorOpen_replica_events:
  assumes "vfsmirrorOpen K E g (Some z) p flags pOutFlags s = Inr (r, p', s')"
    and "length z < 2 ^ 31"
    and "replica_opens (new_events s s') \<noteq> []"
  shows "vfsmirrorReplicaPath g (Some z) (NAME_MAX K) = Inr (zFname2 p')
       \<and> list_all (\<lambda>e. e = EvOpen Replica (Some (zFname2 p')) flags pOutFlags)
            (replica_opens (new_events s s'))"
proof -
  obtain rc f0 w1 where xo: "xOpen E (Some z) flags pOutFlags (os s) = ((rc, f0), w1)"
    by (metis surj_pair)
  from assms(1) xo show ?thesis
  proof (cases rule: vfsmirrorOpen_steps)
    case (mirrored tail s2 evs path rc1 f1)
    obtain t where t: "tail = Some t"
      using mirrored(6) by (auto simp: fileTail_def split: sum.splits if_splits)
    have "fileTail (Some t) = fileTail (Some z)"
      using fileTail_idem[OF _ assms(2), of t] mirrored(6) t by simp
    then have rp: "vfsmirrorReplicaPath g (Some z) (NAME_MAX K) = Inr (zFname2 p')"
      using vfsmirrorReplicaPath_cong[of "Some t" "Some z" g "NAME_MAX K"] mirrored(7,11) t
      by simp
    from replica_retry_events[OF mirrored(8)] obtain evs' where
      e: "trace s' = trace s2 @ evs'"
         "list_all (\<lambda>e. e = EvOpen Replica (Some path) flags pOutFlags) (replica_opens evs')"
      by auto
    have "new_events s s' = EvOpen Primary (Some z) flags pOutFlags # evs @ evs'"
      using e(1) mirrored(4) by (intro new_events_append) simp
    then have "replica_opens (new_events s s') = replica_opens evs'"
      using mirrored(5) by (simp add: replica_opens_def)
    then show ?thesis
      using rp e(2) mirrored(11) by simp
  next
    case (single evs)
    have "new_events s s' = EvOpen Primary (Some z) flags pOutFlags # evs"
      using single(2) by (intro new_events_append) simp
    then have "replica_opens (new_events s s') = []"
      using single(3) by (simp add: replica_opens_def)
    with assms(3) show ?thesis by simp
  qed
qed

lemma base_name_split:
  "\<exists>pre. z = pre @ base_name z \<and> (pre = [] \<or> is_sep (last pre))"
proof -
  let ?P = "\<lambda>c. \<not> is_sep c"
  let ?pre = "rev (dropWhile ?P (rev z))"
  have "rev z = takeWhile ?P (rev z) @ dropWhile ?P (rev z)"
    by simp
  then have "z = ?pre @ base_name z"
    unfolding base_name_def by (metis rev_append rev_rev_ident)
  moreover have "?pre = [] \<or> is_sep (last ?pre)"
    using hd_dropWhile[of ?P "rev z"] by (auto simp: last_rev)
  ultimately show ?thesis by blast
qed

lemma base_name_replace_dir:
  assumes "pre = [] \<or> is_sep (last pre)"
  shows "base_name (pre @ base_name z) = base_name z"
proof -
  let ?P = "\<lambda>c. \<not> is_sep c"
  have all: "\<forall>c \<in> set (rev (base_name z)). ?P c"
    using base_name_no_sep[of z] by (simp add: list_all_iff)
  have "takeWhile ?P (rev pre) = []"
    using assms by (cases pre rule: rev_cases) auto
  moreover have "takeWhile ?P (rev (base_name z) @ rev pre)
      = rev (base_name z) @ takeWhile ?P (rev pre)"
    using all by (intro takeWhile_append2) blast
  ultimately have "takeWhile ?P (rev (base_name z) @ rev pre) = rev (base_name z)"
    by simp
  then show ?thesis
    by (simp add: base_name_def)
qed

lemma base_name_last:
  assumes "z \<noteq> []" and "\<not> is_sep (last z)"
  shows "base_name z \<noteq> [] \<and> last (base_name z) = last z"
proof -
  obtain xs c where z: "z = xs @ [c]"
    using assms(1) by (cases z rule: rev_cases) auto
  then show ?thesis
    using assms(2) by (simp add: base_name_snoc)
qed

lemma replica_opens_when_mirrored:
  assumes "vfsmirrorOpen K E g zName p flags pOutFlags s = Inr (r, p', s')"
    and "zName \<noteq> None"
    and "fst (fst (xOpen E zName flags pOutFlags (os s))) = SQLITE_OK K"
    and "flags AND (SQLITE_OPEN_MAIN_DB K OR SQLITE_OPEN_MAIN_JOURNAL K) \<noteq> 0"
  shows "replica_opens (new_events s s') \<noteq> []"
proof -
  obtain rc f0 w1 where xo: "xOpen E zName flags pOutFlags (os s) = ((rc, f0), w1)"
    by (metis surj_pair)
  from assms(1) xo show ?thesis
  proof (cases rule: vfsmirrorOpen_steps)
    case (mirrored tail s2 evs path rc1 f1)
    from replica_retry_trace[OF mirrored(8)] obtain evs' where
      e: "trace s' = trace s2 @ evs'" "replica_opens evs' \<noteq> []"
      by auto
    have "new_events s s' = EvOpen Primary zName flags pOutFlags # evs @ evs'"
      using e(1) mirrored(4) by (intro new_events_append) simp
    then show ?thesis
      using e(2) by (simp add: replica_opens_def)
  next
    case (single evs)
    then show ?thesis
      using assms(2,3,4) xo by simp
  qed
qed

lemma replica_path_base_name:
  assumes "cstr (zSlaveDir g) = Inr dir" and "z \<noteq> []" and "length z < 2 ^ 31"
    and "\<not> is_sep (last z)"
    and "length dir + length (base_name z) + 2 \<le> sz"
  shows "vfsmirrorReplicaPath g (Some z) sz = Inr (dir @ [backslash] @ base_name z)"
proof -
  have ft: "fileTail (Some z) = Inr (Some (base_name z))"
    using assms(2,3,4) by (rule fileTail_base_name)
  show ?thesis
    using assms(1,5) by (simp add: vfsmirrorReplicaPath_def strncpy_def strncat_def ft)
qed

text \<open>
  Claim C4, as the code has it: for a primary path that is not empty and does not end
  in a separator, and whose result fits the array, the replica path is the replica
  directory, one backslash, and the base name of the primary path. The base name holds
  no separator and is what follows the last separator of the path; and the result is
  the same whatever directory part stands before that base name, so nothing of the
  directory part of the primary path is in the result. Opening such a path tries the
  replica open against that replica path and no other, and does try it when the primary
  file opened and the flags are those of a main database or a main journal.
\<close>

theorem replica_path_is_dir_backslash_base_name:
  assumes "cstr (zSlaveDir g) = Inr dir" and "z \<noteq> []" and "length z < 2 ^ 31"
    and "\<not> is_sep (last z)"
    and "length dir + length (base_name z) + 2 \<le> NAME_MAX K"
  shows "vfsmirrorReplicaPath g (Some z) (NAME_MAX K) = Inr (dir @ [backslash] @ base_name z)
       \<and> list_all (\<lambda>c. \<not> is_sep c) (base_name z)
       \<and> (\<exists>pre. z = pre @ base_name z \<and> (pre = [] \<or> is_sep (last pre)))
       \<and> (\<forall>pre'. (pre' = [] \<or> is_sep (last pre')) \<and> length (pre' @ base_name z) < 2 ^ 31 \<longrightarrow>
             vfsmirrorReplicaPath g (Some (pre' @ base_name z)) (NAME_MAX K)
               = vfsmirrorReplicaPath g (Some z) (NAME_MAX K))
       \<and> (vfsmirrorOpen K E g (Some z) p flags pOutFlags s = Inr (r, p', s') \<longrightarrow>
            list_all (\<lambda>e. e = EvOpen Replica (Some (dir @ [backslash] @ base_name z)) flags pOutFlags)
              (replica_opens (new_events s s'))
            \<and> (fst (fst (xOpen E (Some z) flags pOutFlags (os s))) = SQLITE_OK K
                 \<and> flags AND (SQLITE_OPEN_MAIN_DB K OR SQLITE_OPEN_MAIN_JOURNAL K) \<noteq> 0 \<longrightarrow>
               replica_opens (new_events s s') \<noteq> []))"
proof -
  have rp: "vfsmirrorReplicaPath g (Some z) (NAME_MAX K) = Inr (dir @ [backslash] @ base_name z)"
    using assms by (rule replica_path_base_name)
  have bl: "base_name z \<noteq> []" "last (base_name z) = last z"
    using base_name_last[OF assms(2,4)] by simp_all
  have ind: "vfsmirrorReplicaPath g (Some (pre' @ base_name z)) (NAME_MAX K)
               = vfsmirrorReplicaPath g (Some z) (NAME_MAX K)"
    if d: "pre' = [] \<or> is_sep (last pre')" and l: "length (pre' @ base_name z) < 2 ^ 31" for pre'
  proof -
    have b: "base_name (pre' @ base_name z) = base_name z"
      using d by (rule base_name_replace_dir)
    have "vfsmirrorReplicaPath g (Some (pre' @ base_name z)) (NAME_MAX K)
        = Inr (dir @ [backslash] @ base_name (pre' @ base_name z))"
      using assms(1) _ l
    proof (rule replica_path_base_name)
      show "pre' @ base_name z \<noteq> []" using bl(1) by simp
      show "\<not> is_sep (last (pre' @ base_name z))" using bl assms(4) by simp
      show "length dir + length (base_name (pre' @ base_name z)) + 2 \<le> NAME_MAX K"
        using assms(5) b by simp
    qed
    then show ?thesis
      using rp b by simp
  qed
  have op: "list_all (\<lambda>e. e = EvOpen Replica (Some (dir @ [backslash] @ base_name z)) flags pOutFlags)
              (replica_opens (new_events s s'))"
    if o: "vfsmirrorOpen K E g (Some z) p flags pOutFlags s = Inr (r, p', s')"
  proof (cases "replica_opens (new_events s s') = []")
    case True
    then show ?thesis by simp
  next
    case False
    from vfsmirrorOpen_replica_events[OF o assms(3) False] rp show ?thesis
      by simp
  qed
  have ne: "replica_opens (new_events s s') \<noteq> []"
    if "vfsmirrorOpen K E g (Some z) p flags pOutFlags s = Inr (r, p', s')"
      and "fst (fst (xOpen E (Some z) flags pOutFlags (os s))) = SQLITE_OK K"
      and "flags AND (SQLITE_OPEN_MAIN_DB K OR SQLITE_OPEN_MAIN_JOURNAL K) \<noteq> 0"
    using replica_opens_when_mirrored[OF that(1) _ that(2,3)] by simp
  show ?thesis
    using rp base_name_no_sep[of z] base_name_split[of z] ind op ne by blast
qed

text \<open>With \<open>D:/m\<close> configured, \<open>/a/b/test.db\<close> and \<open>C:/x/test.db\<close> both give \<open>D:/m\test.db\<close>, and
  opening \<open>/a/b/test.db\<close> as main database opens the replica there.\<close>

theorem replica_path_is_dir_backslash_base_name_witness:
  "vfsmirrorReplicaPath globals_demo (Some demo_db) (NAME_MAX sqlite3_std)
     = Inr (''D:/m'' @ [backslash] @ ''test.db'')
   \<and> vfsmirrorReplicaPath globals_demo (Some (''C:/x/'' @ ''test.db'')) (NAME_MAX sqlite3_std)
     = Inr (''D:/m'' @ [backslash] @ ''test.db'')
   \<and> list_all (\<lambda>e. e = EvOpen Replica (Some (''D:/m'' @ [backslash] @ ''test.db'')) 0x106 None)
       (replica_opens (new_events sys_init
          \<lparr>trace = [EvOpen Primary (Some demo_db) 0x106 None, EvMalloc,
                    EvOpen Replica (Some demo_replica) 0x106 None],
            os = 3\<rparr>))
   \<and> replica_opens (new_events sys_init
          \<lparr>trace = [EvOpen Primary (Some demo_db) 0x106 None, EvMalloc,
                    EvOpen Replica (Some demo_replica) 0x106 None],
            os = 3\<rparr>) \<noteq> []"
proof -
  let ?E = "demo_env [demo_db, demo_replica] []"
  have n: "demo_db \<noteq> []" and l: "length demo_db < 2 ^ 31"
    and e: "\<not> is_sep (last demo_db)"
    and b: "base_name demo_db = ''test.db''"
    by (simp_all add: demo_db_def is_sep_def base_name_def slash_def backslash_def)
  have f: "length ''D:/m'' + length (base_name demo_db) + 2 \<le> NAME_MAX sqlite3_std"
    by (simp add: b sqlite3_std_def)
  have d: "(''C:/x/'' = [] \<or> is_sep (last ''C:/x/''))
      \<and> length (''C:/x/'' @ base_name demo_db) < 2 ^ 31"
    by (simp add: b is_sep_def slash_def)
  have ok: "fst (fst (xOpen ?E (Some demo_db) 0x106 None (os sys_init))) = SQLITE_OK sqlite3_std
      \<and> 0x106 AND (SQLITE_OPEN_MAIN_DB sqlite3_std OR SQLITE_OPEN_MAIN_JOURNAL sqlite3_std) \<noteq> (0::int)"
    by (simp add: sqlite3_std_def demo_env_def)
  note T = replica_path_is_dir_backslash_base_name[OF demo_dir n l e f,
      where E = ?E and p = file_init and flags = "0x106" and pOutFlags = None and s = sys_init
        and r = 0
        and p' = "\<lparr>base_pMethods = Some (1, demo_methods), zFName = Some ''test.db'',
            zFname2 = demo_replica, pReal0 = Some 0, pReal1 = Some (Some 2)\<rparr>"
        and s' = "\<lparr>trace = [EvOpen Primary (Some demo_db) 0x106 None, EvMalloc,
                    EvOpen Replica (Some demo_replica) 0x106 None], os = 3\<rparr>"]
  have rp: "vfsmirrorReplicaPath globals_demo (Some demo_db) (NAME_MAX sqlite3_std)
      = Inr (''D:/m'' @ [backslash] @ ''test.db'')"
    using T[THEN conjunct1] by (simp only: b)
  have ind: "vfsmirrorReplicaPath globals_demo (Some (''C:/x/'' @ base_name demo_db)) (NAME_MAX sqlite3_std)
      = vfsmirrorReplicaPath globals_demo (Some demo_db) (NAME_MAX sqlite3_std)"
    using T[THEN conjunct2, THEN conjunct2, THEN conjunct2, THEN conjunct1, rule_format, OF d] .
  have op: "list_all (\<lambda>e. e = EvOpen Replica (Some (''D:/m'' @ [backslash] @ base_name demo_db)) 0x106 None)
       (replica_opens (new_events sys_init
          \<lparr>trace = [EvOpen Primary (Some demo_db) 0x106 None, EvMalloc,
                    EvOpen Replica (Some demo_replica) 0x106 None],
            os = 3\<rparr>))
     \<and> replica_opens (new_events sys_init
          \<lparr>trace = [EvOpen Primary (Some demo_db) 0x106 None, EvMalloc,
                    EvOpen Replica (Some demo_replica) 0x106 None],
            os = 3\<rparr>) \<noteq> []"
    using T[THEN conjunct2, THEN conjunct2, THEN conjunct2, THEN conjunct2, rule_format,
        OF demo_open_mirrored] ok by blast
  show ?thesis
    using rp ind op by (simp only: b) simp
qed

text \<open>
  Claim C4 as stated fails: the path \<open>/a/b/\<close> has an empty last component, and the
  replica path ends in \<open>b/\<close>, which is neither that nor the component \<open>b\<close>; and the
  example of the claim, \<open>/a/b/test.db\<close>, gives the directory, a backslash and
  \<open>test.db\<close>, not the directory, a slash and \<open>test.db\<close>.
\<close>

theorem replica_path_counterexample:
  "vfsmirrorReplicaPath globals_demo (Some ''/a/b/'') (NAME_MAX sqlite3_std)
     = Inr (''D:/m'' @ [backslash] @ ''b/'')
   \<and> base_name ''/a/b/'' = []
   \<and> ''D:/m'' @ [backslash] @ ''b/'' \<noteq> ''D:/m'' @ [backslash] @ ''b''
   \<and> vfsmirrorReplicaPath globals_demo (Some ''/a/b/test.db'') (NAME_MAX sqlite3_std)
     = Inr (''D:/m'' @ [backslash] @ ''test.db'')
   \<and> ''D:/m'' @ [backslash] @ ''test.db'' \<noteq> ''D:/m/test.db''"
proof -
  have "vfsmirrorReplicaPath globals_demo (Some ''/a/b/'') (NAME_MAX sqlite3_std)
     = Inr (''D:/m'' @ [backslash] @ ''b/'')"
    by (simp add: vfsmirrorReplicaPath_def demo_dir strncpy_def strncat_def sqlite3_std_def
      fileTail_def fileTail_index_def strlen_minus_1_def fileTail_loop.simps char_at_def
      slash_def backslash_def)
  moreover have "base_name ''/a/b/'' = []"
    by (simp add: base_name_def is_sep_def slash_def)
  moreover have "''D:/m'' @ [backslash] @ ''test.db'' \<noteq> ''D:/m/test.db''"
    by (simp add: backslash_def)
  ultimately show ?thesis
    using demo_replica_path by simp
qed

section \<open>Configuring the replica directory a second time\<close>

text \<open>
  Claim C9: after a call of \<^verbatim>\<open>set_mirror_directory\<close> that returned 1, every later call
  returns 0 and changes nothing: \<^verbatim>\<open>zSlaveDir\<close> and \<^verbatim>\<open>registered\<close> are as they were,
  and nothing is added to the trace, so no VFS is registered again. The later call may
  have any argument, the null pointer included, and find the outside world in any state.
\<close>

theorem set_mirror_directory_one_shot:
  assumes "set_mirror_directory K E d g s = Inr (1, g1, s1)"
  shows "registered g1 \<noteq> 0 \<and> set_mirror_directory K' E' d' g1 s' = Inr (0, g1, s')"
proof -
  have "registered g1 \<noteq> 0"
    using assms
    by (auto simp: set_mirror_directory_def Let_def
        split: if_splits option.splits sum.splits prod.splits)
  then show ?thesis
    by (simp add: set_mirror_directory_def)
qed

lemma demo_first_call:
  "set_mirror_directory sqlite3_std (demo_env [] []) (Some ''D:/m//'') globals_init sys_init
     = Inr (1, globals_demo, \<lparr>trace = [EvMalloc, EvVfsRegister ''trace'' 1], os = 2\<rparr>)"
  by code_simp

theorem set_mirror_directory_one_shot_witness:
  "set_mirror_directory sqlite3_std (demo_env [] []) (Some ''D:/m//'') globals_init sys_init
     = Inr (1, globals_demo, \<lparr>trace = [EvMalloc, EvVfsRegister ''trace'' 1], os = 2\<rparr>)
   \<and> registered globals_demo \<noteq> 0
   \<and> set_mirror_directory sqlite3_std (demo_env [] []) (Some ''D:/m'') globals_demo
        \<lparr>trace = [EvMalloc, EvVfsRegister ''trace'' 1], os = 2\<rparr>
     = Inr (0, globals_demo, \<lparr>trace = [EvMalloc, EvVfsRegister ''trace'' 1], os = 2\<rparr>)"
  using set_mirror_directory_one_shot[OF demo_first_call, of sqlite3_std "demo_env [] []"
      "Some ''D:/m''" "\<lparr>trace = [EvMalloc, EvVfsRegister ''trace'' 1], os = 2\<rparr>"]
    demo_first_call
  by simp

section \<open>Further properties\<close>

text \<open>
  On every string that is not empty \<open>fileTail\<close> reads inside the string only (the model
  of the loop has no out-of-range read left) and returns a pointer into it, at an offset
  from 0 to the length minus one.
\<close>

theorem fileTail_in_range:
  assumes "z \<noteq> []" and "length z < 2 ^ 31"
  shows "\<exists>i. fileTail_index z = Inr i \<and> 0 \<le> i \<and> i < int (length z)
           \<and> fileTail (Some z) = Inr (Some (drop (nat i) z))"
proof -
  let ?P = "\<lambda>c. \<not> is_sep c"
  let ?j = "length (dropWhile ?P (rev (take (length z - 1) z)))"
  have "strlen_minus_1 z = int (length z - 1)"
    using assms by (cases z) (simp_all add: strlen_minus_1_small)
  moreover have "fileTail_loop z (int (length z - 1)) = Inr (int ?j)"
    by (rule fileTail_loop_nat) simp
  ultimately have idx: "fileTail_index z = Inr (int ?j)"
    by (simp only: fileTail_index_def)
  have "?j \<le> length z - 1"
    using length_dropWhile_le[of ?P "rev (take (length z - 1) z)"] by simp
  then have "int ?j < int (length z)"
    using assms(1) by (cases z) auto
  then show ?thesis
    using idx by (auto simp: fileTail_def)
qed

theorem fileTail_in_range_witness:
  "fileTail_index demo_db = Inr 5 \<and> fileTail (Some demo_db) = Inr (Some (drop 5 demo_db))"
proof -
  have n: "demo_db \<noteq> []" and l: "length demo_db < 2 ^ 31"
    by (simp_all add: demo_db_def)
  have "fileTail_index demo_db = Inr 5"
    by (simp add: demo_db_def fileTail_index_def strlen_minus_1_def fileTail_loop.simps
        char_at_def slash_def backslash_def)
  then show ?thesis
    using fileTail_in_range[OF n l] by auto
qed

text \<open>
  \<^verbatim>\<open>vfsmirrorWrite\<close> writes to the primary file and then, with the same buffer, amount
  and offset, to the replica when the handle has one; it returns the two codes
  reconciled, which is the primary's code when there is no replica.
\<close>

theorem vfsmirrorWrite_both_files:
  assumes "pReal0 p = Some h0"
    and "xMethod E h0 (XWrite zBuf iAmt iOfst) (os s) = (rc, w1)"
    and "xMethod E h1 (XWrite zBuf iAmt iOfst) w1 = (rc1, w2)"
  shows "(pReal1 p = None \<longrightarrow>
            vfsmirrorWrite K E p zBuf iAmt iOfst s =
              Inr (rc, s\<lparr>trace := trace s @ [EvIo Primary h0 (XWrite zBuf iAmt iOfst)], os := w1\<rparr>))
       \<and> (pReal1 p = Some (Some h1) \<longrightarrow>
            vfsmirrorWrite K E p zBuf iAmt iOfst s =
              Inr (RETURN_CODE K rc rc1,
                   s\<lparr>trace := trace s @ [EvIo Primary h0 (XWrite zBuf iAmt iOfst),
                                          EvIo Replica h1 (XWrite zBuf iAmt iOfst)],
                     os := w2\<rparr>))"
  using call_both_no_replica[OF assms(1) _ assms(2), of K]
    call_both_replica[OF assms(1) _ assms(2,3), of K]
  by (simp add: vfsmirrorWrite_def RETURN_CODE_OK_right)

theorem vfsmirrorWrite_both_files_witness:
  "vfsmirrorWrite sqlite3_std (demo_env [] [2]) file_demo 0 5 0 sys_init
     = Inr (10, \<lparr>trace = [EvIo Primary 1 (XWrite 0 5 0), EvIo Replica 2 (XWrite 0 5 0)], os = 2\<rparr>)
   \<and> vfsmirrorWrite sqlite3_std (demo_env [] []) (file_demo\<lparr>pReal1 := None\<rparr>) 0 5 0 sys_init
     = Inr (0, \<lparr>trace = [EvIo Primary 1 (XWrite 0 5 0)], os = 1\<rparr>)"
proof -
  have p0: "pReal0 file_demo = Some 1" and p1: "pReal1 file_demo = Some (Some 2)"
    and q0: "pReal0 (file_demo\<lparr>pReal1 := None\<rparr>) = Some 1"
    by (simp_all add: file_demo_def)
  have a1: "xMethod (demo_env [] [2]) 1 (XWrite 0 5 0) (os sys_init) = (0, 1)"
    and a2: "xMethod (demo_env [] [2]) 2 (XWrite 0 5 0) 1 = (10, 2)"
    and c1: "xMethod (demo_env [] []) 1 (XWrite 0 5 0) (os sys_init) = (0, 1)"
    and c2: "xMethod (demo_env [] []) 2 (XWrite 0 5 0) 1 = (0, 2)"
    by (simp_all add: demo_env_def sys_init_def)
  show ?thesis
    using vfsmirrorWrite_both_files[OF p0 a1 a2, of sqlite3_std]
      vfsmirrorWrite_both_files[OF q0 c1 c2, of sqlite3_std]
    by (simp add: p1 sqlite3_std_def RETURN_CODE_def sys_init_def)
qed

end
